theory Spec2Isabelle
  imports Complex_Main
begin

section \<open>JavaScript values used by the editor state\<close>

text \<open>
  Strings are lists of code units; a \<^typ>\<open>char\<close> stands for a code unit below 256.
  A field typed \<open>number\<close> can hold, at run time, \<open>undefined\<close> and \<open>null\<close> (the validator
  tests for both), the sentinel \<open>NaN\<close> (what \<open>parseFloat\<close> returns for an empty input),
  the two infinities, or a finite number. A finite number is kept as the decimal
  \<open>m * 10 ^ e\<close> that JavaScript prints for it; comparing that decimal with 0 and 1 and
  asking whether it is integral gives the same answers as for the number itself.
\<close>

datatype jsnum = Undefined | Null | NaN | PosInfinity | NegInfinity | Decimal int int

datatype js_error = TypeError

definition dec_value :: "int \<Rightarrow> int \<Rightarrow> rat" where
  "dec_value m e = (if 0 \<le> e then of_int m * 10 ^ nat e else of_int m / 10 ^ nat (- e))"

text \<open>\<open>x < r\<close>, \<open>x > r\<close> and \<open>x <= r\<close> against a finite literal \<open>r\<close>: \<open>undefined\<close> converts
  to \<open>NaN\<close>, \<open>null\<close> to 0, and every comparison with \<open>NaN\<close> is false.\<close>

fun js_lt :: "jsnum \<Rightarrow> rat \<Rightarrow> bool" where
  "js_lt Undefined r = False"
| "js_lt Null r = (0 < r)"
| "js_lt NaN r = False"
| "js_lt PosInfinity r = False"
| "js_lt NegInfinity r = True"
| "js_lt (Decimal m e) r = (dec_value m e < r)"

fun js_gt :: "jsnum \<Rightarrow> rat \<Rightarrow> bool" where
  "js_gt Undefined r = False"
| "js_gt Null r = (0 > r)"
| "js_gt NaN r = False"
| "js_gt PosInfinity r = True"
| "js_gt NegInfinity r = False"
| "js_gt (Decimal m e) r = (dec_value m e > r)"

fun js_le :: "jsnum \<Rightarrow> rat \<Rightarrow> bool" where
  "js_le Undefined r = False"
| "js_le Null r = (0 \<le> r)"
| "js_le NaN r = False"
| "js_le PosInfinity r = False"
| "js_le NegInfinity r = True"
| "js_le (Decimal m e) r = (dec_value m e \<le> r)"

text \<open>\<open>!x\<close> on a number: true for \<open>undefined\<close>, \<open>null\<close>, \<open>NaN\<close> and zero.\<close>

fun js_not :: "jsnum \<Rightarrow> bool" where
  "js_not Undefined = True"
| "js_not Null = True"
| "js_not NaN = True"
| "js_not PosInfinity = False"
| "js_not NegInfinity = False"
| "js_not (Decimal m e) = (m = 0)"

text \<open>\<open>Number.isInteger(x)\<close>: false unless \<open>x\<close> is a finite number without fraction.\<close>

fun isInteger :: "jsnum \<Rightarrow> bool" where
  "isInteger (Decimal m e) = (of_int \<lfloor>dec_value m e\<rfloor> = dec_value m e)"
| "isInteger x = False"

text \<open>\<open>!s\<close> on a string that optional chaining may have turned into \<open>undefined\<close>.\<close>

fun js_not_str :: "string option \<Rightarrow> bool" where
  "js_not_str None = True"
| "js_not_str (Some s) = (s = [])"

definition isLineTerminator :: "char \<Rightarrow> bool" where
  "isLineTerminator c = (c = CHR 0x0A \<or> c = CHR 0x0D)"

text \<open>The class \<open>\s\<close> of a regular expression, which is also what \<open>trim\<close> removes.\<close>

definition isWhiteSpace :: "char \<Rightarrow> bool" where
  "isWhiteSpace c =
     (c = CHR 0x09 \<or> c = CHR 0x0B \<or> c = CHR 0x0C \<or> c = CHR 0x20 \<or> c = CHR 0xA0 \<or> isLineTerminator c)"

definition trim :: "string \<Rightarrow> string" where
  "trim s = rev (dropWhile isWhiteSpace (rev (dropWhile isWhiteSpace s)))"

section \<open>The editor state (types.ts)\<close>

datatype DocumentKind = SLO | SLI

datatype IndicatorMode = inline | reference

datatype IndicatorType = ratio | threshold

datatype BudgetingMethod = Occurrences | Timeslices

datatype TimeWindowUnit = Day | Hour | Minute | Week

datatype Operator = lt | lte | gt | gte

record MetricSource =
  type :: string
  query :: string

record RatioMetric =
  good :: "MetricSource option"
  bad :: "MetricSource option"
  total :: MetricSource

record ThresholdMetric =
  source :: MetricSource
  operator :: Operator
  "value" :: jsnum

record SloState =
  id' :: string
  apiVersion :: string
  kind :: DocumentKind
  name :: string
  displayName :: string
  description :: string
  service :: string
  app :: string
  budgetingMethod :: BudgetingMethod
  target :: jsnum
  timeWindowCount :: jsnum
  timeWindowUnit :: TimeWindowUnit
  timeWindowRolling :: bool
  indicatorMode :: IndicatorMode
  indicatorRef :: "string option"
  indicatorType :: IndicatorType
  ratioMetric :: "RatioMetric option"
  thresholdMetric :: "ThresholdMetric option"

definition DEFAULT_SLO_STATE :: SloState where
  \<open>DEFAULT_SLO_STATE =
     \<lparr> id' = '''',
       apiVersion = ''openslo/v1'',
       kind = SLO,
       name = ''my-service-availability'',
       displayName = ''My Service Availability'',
       description = ''Availability SLO for the core API service'',
       service = ''core-api'',
       app = '''',
       budgetingMethod = Occurrences,
       target = Decimal 999 (- 3),
       timeWindowCount = Decimal 28 0,
       timeWindowUnit = Day,
       timeWindowRolling = True,
       indicatorMode = inline,
       indicatorRef = None,
       indicatorType = threshold,
       ratioMetric = None,
       thresholdMetric = Some
         \<lparr> source = \<lparr> type = ''prometheus'',
                       query = ''http_request_duration_seconds_bucket{le="0.5"}'' \<rparr>,
           operator = lte,
           value = Decimal 5 (- 1) \<rparr> \<rparr>\<close>


definition standaloneSliRatio :: RatioMetric where
  "standaloneSliRatio =
     \<lparr> good = None,
       bad = Some \<lparr> type = ''prometheus'', query = ''sum(rate(errors_total[5m]))'' \<rparr>,
       total = \<lparr> type = ''prometheus'', query = ''sum(rate(requests_total[5m]))'' \<rparr> \<rparr>"

definition template_standaloneSli :: SloState where
  "template_standaloneSli =
     DEFAULT_SLO_STATE
       \<lparr> kind := SLI,
         name := ''shared-error-sli'',
         displayName := ''Shared Error SLI'',
         description := ''Standard error rate SLI used by multiple services'',
         indicatorType := ratio,
         ratioMetric := Some standaloneSliRatio,
         id' := [] \<rparr>"

section \<open>The validator (validateState in App.tsx)\<close>

definition lowerAlnum :: "char \<Rightarrow> bool" where
  "lowerAlnum c =
     (let n = (of_char c :: nat) in (of_char CHR ''a'' \<le> n \<and> n \<le> of_char CHR ''z'')
         \<or> (of_char CHR ''0'' \<le> n \<and> n \<le> of_char CHR ''9''))"

text \<open>\<open>/^[a-z0-9]([-a-z0-9]*[a-z0-9])?$/.test(n)\<close>: one character of \<open>[a-z0-9]\<close>, then either the
  end of the text, or characters of \<open>[-a-z0-9]\<close> and a last one of \<open>[a-z0-9]\<close> up to the end.\<close>

fun k8sNameRegex :: "string \<Rightarrow> bool" where
  "k8sNameRegex [] = False"
| "k8sNameRegex (c # cs) =
     (lowerAlnum c \<and>
      (cs = [] \<or> (list_all (\<lambda>x. x = CHR ''-'' \<or> lowerAlnum x) (butlast cs) \<and> lowerAlnum (last cs))))"

text \<open>The validator fills \<open>newErrors\<close> in three commented blocks, kept apart here: each takes
  the mapping built so far and returns it with its own entries added.\<close>

type_synonym errors = "string \<rightharpoonup> string"

text \<open>Block "Metadata Validation".\<close>

definition validateMetadata :: "SloState \<Rightarrow> errors \<Rightarrow> errors" where
  "validateMetadata state newErrors =
    (let newErrors =
           (if trim (name state) = [] then newErrors(''name'' \<mapsto> ''Name is required'')
            else if \<not> k8sNameRegex (name state)
              then newErrors(''name'' \<mapsto> ''Must be lowercase alphanumeric (kebab-case)'')
            else newErrors);
         newErrors =
           (if trim (displayName state) = []
            then newErrors(''displayName'' \<mapsto> ''Display Name is required'') else newErrors)
     in newErrors)"

text \<open>Block "SLO-only validation": the body of \<open>if (state.kind === 'SLO')\<close>.\<close>

definition validateSloOnly :: "SloState \<Rightarrow> errors \<Rightarrow> errors" where
  "validateSloOnly state newErrors =
    (let newErrors =
           (if trim (service state) = []
            then newErrors(''service'' \<mapsto> ''Service is required'') else newErrors);
         newErrors =
           (if target state = Undefined \<or> target state = Null
              then newErrors(''target'' \<mapsto> ''Target is required'')
            else if js_lt (target state) 0 \<or> js_gt (target state) 1
              then newErrors(''target'' \<mapsto> ''Must be between 0.0 and 1.0'')
            else newErrors);
         newErrors =
           (if js_not (timeWindowCount state) \<or> js_le (timeWindowCount state) 0
                 \<or> \<not> isInteger (timeWindowCount state)
            then newErrors(''timeWindowCount'' \<mapsto> ''Must be a positive integer'')
            else newErrors);
         newErrors =
           (if indicatorMode state = reference then
              (if js_not_str (map_option trim (indicatorRef state))
               then newErrors(''indicatorRef'' \<mapsto> ''SLI Reference name is required'')
               else newErrors)
            else newErrors)
     in newErrors)"

text \<open>Block "Metric Validation": the body of \<open>if (validateMetrics)\<close>. Optional chaining
  (\<open>?.\<close>) gives \<open>undefined\<close> when the object before it is absent.\<close>

definition validateMetricFields :: "SloState \<Rightarrow> errors \<Rightarrow> errors" where
  "validateMetricFields state newErrors =
    (if indicatorType state = threshold then
       (let newErrors =
              (if js_not_str (map_option (\<lambda>tm. trim (query (source tm))) (thresholdMetric state))
               then newErrors(''thresholdQuery'' \<mapsto> ''Query is required'') else newErrors);
            v = (case thresholdMetric state of None \<Rightarrow> Undefined | Some tm \<Rightarrow> value tm);
            newErrors =
              (if v = Undefined \<or> v = Null
               then newErrors(''thresholdValue'' \<mapsto> ''Threshold value is required'')
               else newErrors)
        in newErrors)
     else if indicatorType state = ratio then
       (let newErrors =
              (if js_not_str (map_option (\<lambda>rm. trim (query (total rm))) (ratioMetric state))
               then newErrors(''ratioTotal'' \<mapsto> ''Total query is required'') else newErrors);
            hasGood = (\<not> js_not_str
              (map_option (\<lambda>g. trim (query g)) (Option.bind (ratioMetric state) good)));
            hasBad = (\<not> js_not_str
              (map_option (\<lambda>b. trim (query b)) (Option.bind (ratioMetric state) bad)));
            newErrors =
              (if \<not> hasGood \<and> \<not> hasBad
               then newErrors(''ratioGoodBad'' \<mapsto> ''Either Good or Bad metric query is required'')
               else newErrors)
        in newErrors)
     else newErrors)"

definition validateState :: "SloState \<Rightarrow> errors" where
  "validateState state =
    (let newErrors = Map.empty;
         newErrors = validateMetadata state newErrors;
         newErrors = (if kind state = SLO then validateSloOnly state newErrors else newErrors);
         validateMetrics =
           (kind state = SLI \<or> (kind state = SLO \<and> indicatorMode state = inline));
         newErrors = (if validateMetrics then validateMetricFields state newErrors else newErrors)
     in newErrors)"

section \<open>The document renderer (generateYaml)\<close>

subsection \<open>Text of interpolated values\<close>

fun digits_of :: "nat \<Rightarrow> nat list" where
  "digits_of n = (if n < 10 then [n] else digits_of (n div 10) @ [n mod 10])"

declare digits_of.simps [simp del]

definition digit_char :: "nat \<Rightarrow> char" where
  "digit_char d = ''0123456789'' ! d"

definition nat_text :: "nat \<Rightarrow> string" where
  "nat_text n = map digit_char (digits_of n)"

text \<open>\<open>Number::toString\<close> of a finite number \<open>m * 10 ^ e\<close>: with \<open>s\<close> the digits of \<open>m\<close>
  without trailing zeros, \<open>k\<close> their count and \<open>s * 10 ^ (n - k)\<close> the value, the text is plain
  decimal notation for \<open>-6 < n \<le> 21\<close> and exponent notation otherwise.\<close>

definition dec_text :: "int \<Rightarrow> int \<Rightarrow> string" where
  "dec_text m e =
     (if m = 0 then ''0''
      else
        let ds0 = digits_of (nat \<bar>m\<bar>);
            z = length (takeWhile (\<lambda>d. d = 0) (rev ds0));
            s = map digit_char (take (length ds0 - z) ds0);
            k = int (length s);
            n = k + (e + int z);
            sign = (if m < 0 then ''-'' else [])
        in sign @
           (if k \<le> n \<and> n \<le> 21 then s @ replicate (nat (n - k)) CHR ''0''
            else if 0 < n \<and> n \<le> 21 then take (nat n) s @ ''.'' @ drop (nat n) s
            else if - 6 < n \<and> n \<le> 0 then ''0.'' @ replicate (nat (- n)) CHR ''0'' @ s
            else
              let ex = (if n - 1 < 0 then ''-'' else ''+'') @ nat_text (nat \<bar>n - 1\<bar>)
              in if k = 1 then s @ ''e'' @ ex else take 1 s @ ''.'' @ drop 1 s @ ''e'' @ ex))"

fun num_text :: "jsnum \<Rightarrow> string" where
  "num_text Undefined = ''undefined''"
| "num_text Null = ''null''"
| "num_text NaN = ''NaN''"
| "num_text PosInfinity = ''Infinity''"
| "num_text NegInfinity = ''-Infinity''"
| "num_text (Decimal m e) = dec_text m e"

fun str_text :: "string option \<Rightarrow> string" where
  "str_text None = ''undefined''"
| "str_text (Some s) = s"

fun bool_text :: "bool \<Rightarrow> string" where
  "bool_text True = ''true''"
| "bool_text False = ''false''"

fun operator_text :: "Operator \<Rightarrow> string" where
  "operator_text lt = ''lt''"
| "operator_text lte = ''lte''"
| "operator_text gt = ''gt''"
| "operator_text gte = ''gte''"

fun budgetingMethod_text :: "BudgetingMethod \<Rightarrow> string" where
  "budgetingMethod_text Occurrences = ''occurrences''"
| "budgetingMethod_text Timeslices = ''timeslices''"

fun timeWindowUnit_text :: "TimeWindowUnit \<Rightarrow> string" where
  "timeWindowUnit_text Day = ''d''"
| "timeWindowUnit_text Hour = ''h''"
| "timeWindowUnit_text Minute = ''m''"
| "timeWindowUnit_text Week = ''w''"

subsection \<open>Lines\<close>

text \<open>The lines of a template literal, and \<open>join('\n')\<close>: the pieces with a line feed between
  two neighbours.\<close>

fun join_nl :: "string list \<Rightarrow> string" where
  "join_nl [] = []"
| "join_nl [l] = l"
| "join_nl (l # m # ls) = l @ CHR 0x0A # join_nl (m # ls)"

text \<open>\<open>split('\n')\<close>: the text is cut at every line feed; \<open>cur\<close> is the line read so far.
  The empty text has one (empty) line.\<close>

fun splitLines :: "string \<Rightarrow> string \<Rightarrow> string list" where
  "splitLines cur [] = [cur]"
| "splitLines cur (c # cs) =
     (if c = CHR 0x0A then cur # splitLines [] cs else splitLines (cur @ [c]) cs)"

definition split_nl :: "string \<Rightarrow> string list" where
  "split_nl s = splitLines [] s"

subsection \<open>The replacement of \<open>/^\s*\n/gm\<close> by the empty text\<close>

text \<open>The match of \<open>\s*\n\<close> at the head of a text: the star is greedy and gives characters
  back until a line feed follows, so the match ends with the last line feed of the leading
  white space. The result is the length of the match.\<close>

definition matchBlank :: "string \<Rightarrow> nat option" where
  "matchBlank s =
     (let ws = takeWhile isWhiteSpace s
      in if CHR 0x0A \<in> set ws
         then Some (length ws - length (takeWhile (\<lambda>c. c \<noteq> CHR 0x0A) (rev ws)))
         else None)"

text \<open>The scan of a global replacement. With the flag \<open>m\<close>, \<open>^\<close> holds at the start of the
  text and after a line terminator of the input. A match is dropped and the scan goes on
  behind it; where nothing matches, one character is kept.\<close>

function replaceBlankLines :: "bool \<Rightarrow> string \<Rightarrow> string" where
  "replaceBlankLines atLineStart [] = []"
| "replaceBlankLines atLineStart (c # cs) =
     (case (if atLineStart then matchBlank (c # cs) else None) of
        Some n \<Rightarrow> replaceBlankLines True (drop n (c # cs))
      | None \<Rightarrow> c # replaceBlankLines (isLineTerminator c) cs)"
  by pat_completeness auto

termination replaceBlankLines
proof (relation "measure (\<lambda>(b, s). length s)")
  show "wf (measure (\<lambda>(b, s). length s))" by simp
next
  fix atLineStart :: bool and c :: char and cs :: string and n :: nat
  assume "(if atLineStart then matchBlank (c # cs) else None) = Some n"
  then have a: "matchBlank (c # cs) = Some n" by (simp split: if_splits)
  define ws where "ws = takeWhile isWhiteSpace (c # cs)"
  define tw where "tw = takeWhile (\<lambda>c. c \<noteq> CHR 0x0A) (rev ws)"
  from a have mem: "CHR 0x0A \<in> set (rev ws)" and n: "n = length ws - length tw"
    by (auto simp: matchBlank_def ws_def tw_def Let_def split: if_splits)
  from mem have "dropWhile (\<lambda>c. c \<noteq> CHR 0x0A) (rev ws) \<noteq> []"
    by simp
  moreover have "length tw + length (dropWhile (\<lambda>c. c \<noteq> CHR 0x0A) (rev ws)) = length ws"
    unfolding tw_def by (metis length_append length_rev takeWhile_dropWhile_id)
  ultimately have "0 < n" using n by (cases "dropWhile (\<lambda>c. c \<noteq> CHR 0x0A) (rev ws)") auto
  then show "((True, drop n (c # cs)), (atLineStart, c # cs)) \<in> measure (\<lambda>(b, s). length s)"
    by simp
next
  fix atLineStart :: bool and c :: char and cs :: string
  show "((isLineTerminator c, cs), (atLineStart, c # cs)) \<in> measure (\<lambda>(b, s). length s)"
    by simp
qed

declare replaceBlankLines.simps [simp del]

subsection \<open>Reading an optional object\<close>

text \<open>A property read on \<open>undefined\<close> raises a \<open>TypeError\<close>; the renderer reads the optional
  metric objects behind truthiness tests.\<close>

definition deref :: "'a option \<Rightarrow> js_error + 'a" where
  "deref x = (case x of None \<Rightarrow> Inl TypeError | Some v \<Rightarrow> Inr v)"

definition bind_err :: "js_error + 'a \<Rightarrow> ('a \<Rightarrow> js_error + 'b) \<Rightarrow> js_error + 'b" where
  "bind_err r f = (case r of Inl e \<Rightarrow> Inl e | Inr v \<Rightarrow> f v)"

subsection \<open>generateYaml\<close>

text \<open>The template literal assigned to \<open>metricBlock\<close> (step 1 of the source).\<close>

definition metricTemplate :: "SloState \<Rightarrow> js_error + string" where
  "metricTemplate state =
    (if indicatorType state = threshold \<and> thresholdMetric state \<noteq> None then
       bind_err (deref (thresholdMetric state)) (\<lambda>tm. Inr (join_nl
         [''thresholdMetric:'',
          ''  metricSource:'',
          ''    type: '' @ type (source tm),
          ''    spec:'',
          ''      query: >-'',
          ''        '' @ query (source tm),
          ''  operator: '' @ operator_text (operator tm),
          ''  value: '' @ num_text (value tm)]))
     else if indicatorType state = ratio \<and> ratioMetric state \<noteq> None then
       bind_err (deref (ratioMetric state)) (\<lambda>rm.
       bind_err
         (if good rm \<noteq> None then
            bind_err (deref (good rm)) (\<lambda>g. Inr (join_nl
              [''good:'',
               ''    metricSource:'',
               ''      type: '' @ type g,
               ''      spec:'',
               ''        query: >-'',
               ''          '' @ query g]))
          else Inr []) (\<lambda>goodBlock.
       bind_err
         (if bad rm \<noteq> None then
            bind_err (deref (bad rm)) (\<lambda>b. Inr (join_nl
              [''bad:'',
               ''    metricSource:'',
               ''      type: '' @ type b,
               ''      spec:'',
               ''        query: >-'',
               ''          '' @ query b]))
          else Inr []) (\<lambda>badBlock.
       Inr (join_nl
         [''ratioMetric:'',
          ''  '' @ goodBlock,
          ''  '' @ badBlock,
          ''  total:'',
          ''    metricSource:'',
          ''      type: '' @ type (total rm),
          ''      spec:'',
          ''        query: >-'',
          ''          '' @ query (total rm)]))))
     else Inr [])"

text \<open>\<open>metricBlock\<close> after the removal of empty lines.\<close>

definition metricBlock :: "SloState \<Rightarrow> js_error + string" where
  "metricBlock state = bind_err (metricTemplate state) (\<lambda>b. Inr (replaceBlankLines True b))"

definition metadataLabels :: "SloState \<Rightarrow> string" where
  "metadataLabels state =
     (if app state \<noteq> [] \<and> trim (app state) \<noteq> []
      then join_nl [[], ''  labels:'', ''    app: '' @ app state]
      else [])"

definition indentLines :: "string \<Rightarrow> string \<Rightarrow> string" where
  "indentLines pad block = join_nl (map (\<lambda>line. pad @ line) (split_nl block))"

definition generateYaml :: "SloState \<Rightarrow> js_error + string" where
  "generateYaml state =
     bind_err (metricBlock state) (\<lambda>metricBlock.
       if kind state = SLI then
         (let indentedMetric = indentLines ''  '' metricBlock
          in Inr (join_nl
            [''apiVersion: '' @ apiVersion state,
             ''kind: SLI'',
             ''metadata:'',
             ''  name: '' @ name state,
             ''  displayName: '' @ displayName state @ metadataLabels state,
             ''spec:'',
             ''  description: '' @ description state,
             indentedMetric]))
       else
         (let indicatorSection =
                (if indicatorMode state = reference \<and> \<not> js_not_str (indicatorRef state)
                 then ''  indicatorRef: '' @ str_text (indicatorRef state)
                 else
                   (let indentedMetric = indentLines ''    '' metricBlock
                    in join_nl [''  indicator:'', indentedMetric]))
          in Inr (join_nl
            [''apiVersion: '' @ apiVersion state,
             ''kind: SLO'',
             ''metadata:'',
             ''  name: '' @ name state,
             ''  displayName: '' @ displayName state @ metadataLabels state,
             ''spec:'',
             ''  description: '' @ description state,
             ''  service: '' @ service state,
             ''  budgetingMethod: '' @ budgetingMethod_text (budgetingMethod state),
             ''  objectives:'',
             ''    - displayName: '' @ displayName state,
             ''      target: '' @ num_text (target state),
             ''      timeWindow:'',
             ''        - rolling: '' @ bool_text (timeWindowRolling state),
             ''          count: '' @ num_text (timeWindowCount state),
             ''          unit: '' @ timeWindowUnit_text (timeWindowUnit state),
             indicatorSection])))"

section \<open>Vocabulary of the properties\<close>

subsection \<open>The validation rules, in the words of the specification\<close>

text \<open>Metric validation applies to an SLI and to an SLO whose indicator is inline.\<close>

definition metricsInPlace :: "SloState \<Rightarrow> bool" where
  "metricsInPlace s = (kind s = SLI \<or> (kind s = SLO \<and> indicatorMode s = inline))"

definition blank :: "string \<Rightarrow> bool" where
  "blank t = (trim t = [])"

definition blankOrAbsent :: "string option \<Rightarrow> bool" where
  "blankOrAbsent t = (case t of None \<Rightarrow> True | Some x \<Rightarrow> blank x)"

text \<open>A target is in the closed interval from 0 to 1 when it is a number whose value lies
  there. The infinities are outside, and so is \<open>NaN\<close>, which is no number at all;
  \<open>undefined\<close> and \<open>null\<close> are not defined targets.\<close>

definition inUnitInterval :: "jsnum \<Rightarrow> bool" where
  "inUnitInterval t =
     (case t of Decimal m e \<Rightarrow> 0 \<le> dec_value m e \<and> dec_value m e \<le> 1 | _ \<Rightarrow> False)"

text \<open>The target of an SLO holds \<open>NaN\<close>, the value of a number field that could not be
  read.\<close>

definition nanTarget :: "SloState \<Rightarrow> bool" where
  "nanTarget s = (kind s = SLO \<and> target s = NaN)"

definition positiveInteger :: "jsnum \<Rightarrow> bool" where
  "positiveInteger t =
     (case t of Decimal m e \<Rightarrow> 0 < dec_value m e \<and> dec_value m e \<in> \<int> | _ \<Rightarrow> False)"

datatype rule = NameRule | DisplayNameRule | ServiceRule | TargetRule | TimeWindowCountRule
  | IndicatorRefRule | ThresholdQueryRule | ThresholdValueRule | RatioTotalRule | RatioGoodBadRule

text \<open>The key of the result under which a failed rule is reported.\<close>

fun ruleKey :: "rule \<Rightarrow> string" where
  "ruleKey NameRule = ''name''"
| "ruleKey DisplayNameRule = ''displayName''"
| "ruleKey ServiceRule = ''service''"
| "ruleKey TargetRule = ''target''"
| "ruleKey TimeWindowCountRule = ''timeWindowCount''"
| "ruleKey IndicatorRefRule = ''indicatorRef''"
| "ruleKey ThresholdQueryRule = ''thresholdQuery''"
| "ruleKey ThresholdValueRule = ''thresholdValue''"
| "ruleKey RatioTotalRule = ''ratioTotal''"
| "ruleKey RatioGoodBadRule = ''ratioGoodBad''"

fun rulePasses :: "rule \<Rightarrow> SloState \<Rightarrow> bool" where
  "rulePasses NameRule s = (\<not> blank (name s) \<and> k8sNameRegex (name s))"
| "rulePasses DisplayNameRule s = (\<not> blank (displayName s))"
| "rulePasses ServiceRule s = (kind s = SLO \<longrightarrow> \<not> blank (service s))"
| "rulePasses TargetRule s =
     (kind s = SLO \<longrightarrow> target s \<noteq> Undefined \<and> target s \<noteq> Null \<and> inUnitInterval (target s))"
| "rulePasses TimeWindowCountRule s = (kind s = SLO \<longrightarrow> positiveInteger (timeWindowCount s))"
| "rulePasses IndicatorRefRule s =
     (kind s = SLO \<and> indicatorMode s = reference \<longrightarrow> \<not> blankOrAbsent (indicatorRef s))"
| "rulePasses ThresholdQueryRule s =
     (metricsInPlace s \<and> indicatorType s = threshold
        \<longrightarrow> \<not> blankOrAbsent (map_option (\<lambda>tm. query (source tm)) (thresholdMetric s)))"
| "rulePasses ThresholdValueRule s =
     (metricsInPlace s \<and> indicatorType s = threshold
        \<longrightarrow> (\<exists>tm. thresholdMetric s = Some tm \<and> value tm \<noteq> Undefined \<and> value tm \<noteq> Null))"
| "rulePasses RatioTotalRule s =
     (metricsInPlace s \<and> indicatorType s = ratio
        \<longrightarrow> \<not> blankOrAbsent (map_option (\<lambda>rm. query (total rm)) (ratioMetric s)))"
| "rulePasses RatioGoodBadRule s =
     (metricsInPlace s \<and> indicatorType s = ratio
        \<longrightarrow> \<not> blankOrAbsent (map_option query (Option.bind (ratioMetric s) good))
          \<or> \<not> blankOrAbsent (map_option query (Option.bind (ratioMetric s) bad)))"

subsection \<open>The lines of the rendered indicator body\<close>

text \<open>A text without line terminator occupies one line of the document.\<close>

definition singleLine :: "string \<Rightarrow> bool" where
  "singleLine t = list_all (\<lambda>c. \<not> isLineTerminator c) t"

definition plainSource :: "MetricSource \<Rightarrow> bool" where
  "plainSource src = (singleLine (type src) \<and> singleLine (query src) \<and> \<not> blank (query src))"

text \<open>The six lines of a metric source under the key \<open>k\<close> of a ratio metric; an absent
  optional source has no lines.\<close>

definition entryLines :: "string \<Rightarrow> MetricSource \<Rightarrow> string list" where
  "entryLines k src =
     [''  '' @ k @ '':'',
      ''    metricSource:'',
      ''      type: '' @ type src,
      ''      spec:'',
      ''        query: >-'',
      ''          '' @ query src]"

text \<open>The nested template of an optional source, empty when the source is absent.\<close>

definition optBlock :: "string \<Rightarrow> MetricSource option \<Rightarrow> string" where
  "optBlock k src = (case src of None \<Rightarrow> [] | Some x \<Rightarrow> join_nl
              [k @ '':'',
               ''    metricSource:'',
               ''      type: '' @ type x,
               ''      spec:'',
               ''        query: >-'',
               ''          '' @ query x])"

definition optLines :: "string \<Rightarrow> MetricSource option \<Rightarrow> string list" where
  "optLines k src = (case src of None \<Rightarrow> [] | Some x \<Rightarrow> entryLines k x)"

text \<open>The lines a slot of the ratio template holds before the removal of empty lines: an
  absent source leaves the indentation of its slot.\<close>

definition slotLines :: "string \<Rightarrow> MetricSource option \<Rightarrow> string list" where
  "slotLines k src = (case src of None \<Rightarrow> [''  ''] | Some x \<Rightarrow> entryLines k x)"

definition ratioLines :: "RatioMetric \<Rightarrow> string list" where
  "ratioLines rm =
     ''ratioMetric:'' # optLines ''good'' (good rm) @ optLines ''bad'' (bad rm)
       @ entryLines ''total'' (total rm)"

text \<open>The eight lines of a threshold metric.\<close>

definition thresholdLines :: "ThresholdMetric \<Rightarrow> string list" where
  "thresholdLines tm =
     [''thresholdMetric:'',
      ''  metricSource:'',
      ''    type: '' @ type (source tm),
      ''    spec:'',
      ''      query: >-'',
      ''        '' @ query (source tm),
      ''  operator: '' @ operator_text (operator tm),
      ''  value: '' @ num_text (value tm)]"

definition plainRatio :: "RatioMetric \<Rightarrow> bool" where
  "plainRatio rm =
     ((case good rm of None \<Rightarrow> True | Some g \<Rightarrow> plainSource g)
      \<and> (case bad rm of None \<Rightarrow> True | Some b \<Rightarrow> plainSource b)
      \<and> plainSource (total rm))"

text \<open>The types and queries of the sources of a ratio metric are each on one line.\<close>

definition singleSource :: "MetricSource \<Rightarrow> bool" where
  "singleSource src = (singleLine (type src) \<and> singleLine (query src))"

definition singleRatio :: "RatioMetric \<Rightarrow> bool" where
  "singleRatio rm =
     ((case good rm of None \<Rightarrow> True | Some g \<Rightarrow> singleSource g)
      \<and> (case bad rm of None \<Rightarrow> True | Some b \<Rightarrow> singleSource b)
      \<and> singleSource (total rm))"

text \<open>The three lines that open the entries of a ratio metric.\<close>

definition entryKey :: "string \<Rightarrow> bool" where
  "entryKey l = (l = ''  good:'' \<or> l = ''  bad:'' \<or> l = ''  total:'')"

text \<open>What the removal of empty lines leaves of lines without line terminators: the lines
  that are not blank, and the last line as it is.\<close>

definition keptLines :: "string list \<Rightarrow> string list" where
  "keptLines ls = filter (\<lambda>l. \<not> blank l) (butlast ls) @ [last ls]"

subsection \<open>Keys and texts in a document\<close>





subsection \<open>The fixed lines of the two documents\<close>

text \<open>The lines of an SLI document before the indicator body, and of an SLO document before
  the indicator section. The labels, when there are any, hang on the \<open>displayName\<close> line.\<close>

definition sliHeader :: "SloState \<Rightarrow> string list" where
  "sliHeader s =
     [''apiVersion: '' @ apiVersion s,
      ''kind: SLI'',
      ''metadata:'',
      ''  name: '' @ name s,
      ''  displayName: '' @ displayName s @ metadataLabels s,
      ''spec:'',
      ''  description: '' @ description s]"

definition sloHeader :: "SloState \<Rightarrow> string list" where
  "sloHeader s =
     [''apiVersion: '' @ apiVersion s,
      ''kind: SLO'',
      ''metadata:'',
      ''  name: '' @ name s,
      ''  displayName: '' @ displayName s @ metadataLabels s,
      ''spec:'',
      ''  description: '' @ description s,
      ''  service: '' @ service s,
      ''  budgetingMethod: '' @ budgetingMethod_text (budgetingMethod s),
      ''  objectives:'',
      ''    - displayName: '' @ displayName s,
      ''      target: '' @ num_text (target s),
      ''      timeWindow:'',
      ''        - rolling: '' @ bool_text (timeWindowRolling s),
      ''          count: '' @ num_text (timeWindowCount s),
      ''          unit: '' @ timeWindowUnit_text (timeWindowUnit s)]"


text \<open>The reference mode is taken when the mode is \<open>reference\<close> and the reference name is
  truthy: present and not empty.\<close>

definition rendersReference :: "SloState \<Rightarrow> bool" where
  "rendersReference s =
     (indicatorMode s = reference \<and> (case indicatorRef s of None \<Rightarrow> False | Some r \<Rightarrow> r \<noteq> []))"

subsection \<open>Configurations used as examples\<close>

text \<open>The default configuration after the target field was emptied: \<open>parseFloat('')\<close> is
  \<open>NaN\<close>.\<close>

definition nanTargetState :: SloState where
  "nanTargetState = DEFAULT_SLO_STATE\<lparr>target := NaN\<rparr>"

text \<open>The default configuration with a threshold query of three lines, the second empty, and
  the same with the empty line left out.\<close>

definition queryMetric :: "string \<Rightarrow> ThresholdMetric" where
  "queryMetric q =
     \<lparr>source = \<lparr>type = ''prometheus'', query = q\<rparr>, operator = lte, value = Decimal 5 (- 1)\<rparr>"

definition queryState :: "string \<Rightarrow> SloState" where
  "queryState q = DEFAULT_SLO_STATE\<lparr>thresholdMetric := Some (queryMetric q)\<rparr>"



text \<open>The SLI template, which has no good entry, with a bad query of two lines, and with a
  bad type of two lines, the second line reading like the key of a good entry.\<close>

definition twoLineQueryRatio :: RatioMetric where
  "twoLineQueryRatio =
     standaloneSliRatio\<lparr>bad := Some \<lparr>type = ''prometheus'', query = ''x\<newline>  good:''\<rparr>\<rparr>"

definition twoLineQueryState :: SloState where
  "twoLineQueryState = template_standaloneSli\<lparr>ratioMetric := Some twoLineQueryRatio\<rparr>"

definition twoLineTypeRatio :: RatioMetric where
  "twoLineTypeRatio =
     standaloneSliRatio\<lparr>bad := Some \<lparr>type = ''prometheus\<newline>  good:'',
                                      query = ''sum(rate(errors_total[5m]))''\<rparr>\<rparr>"

definition twoLineTypeState :: SloState where
  "twoLineTypeState = template_standaloneSli\<lparr>ratioMetric := Some twoLineTypeRatio\<rparr>"



section \<open>The validator: what is reported under each key\<close>

lemma validateMetadata_apply:
  "validateMetadata s m k =
     (if k = ''name'' \<and> trim (name s) = [] then Some ''Name is required''
      else if k = ''name'' \<and> \<not> k8sNameRegex (name s)
        then Some ''Must be lowercase alphanumeric (kebab-case)''
      else if k = ''displayName'' \<and> trim (displayName s) = []
        then Some ''Display Name is required''
      else m k)"
  by (simp add: validateMetadata_def Let_def)

lemma validateSloOnly_apply:
  "validateSloOnly s m k =
     (if k = ''indicatorRef'' \<and> indicatorMode s = reference
           \<and> js_not_str (map_option trim (indicatorRef s))
        then Some ''SLI Reference name is required''
      else if k = ''timeWindowCount''
           \<and> (js_not (timeWindowCount s) \<or> js_le (timeWindowCount s) 0
                 \<or> \<not> isInteger (timeWindowCount s))
        then Some ''Must be a positive integer''
      else if k = ''target'' \<and> (target s = Undefined \<or> target s = Null)
        then Some ''Target is required''
      else if k = ''target'' \<and> (js_lt (target s) 0 \<or> js_gt (target s) 1)
        then Some ''Must be between 0.0 and 1.0''
      else if k = ''service'' \<and> trim (service s) = [] then Some ''Service is required''
      else m k)"
  by (simp add: validateSloOnly_def Let_def)

lemma validateMetricFields_apply:
  "validateMetricFields s m k =
     (if indicatorType s = threshold then
        (if k = ''thresholdValue''
             \<and> (case thresholdMetric s of None \<Rightarrow> True
                 | Some tm \<Rightarrow> value tm = Undefined \<or> value tm = Null)
           then Some ''Threshold value is required''
         else if k = ''thresholdQuery''
             \<and> js_not_str (map_option (\<lambda>tm. trim (query (source tm))) (thresholdMetric s))
           then Some ''Query is required''
         else m k)
      else
        (if k = ''ratioGoodBad''
            \<and> js_not_str (map_option (\<lambda>g. trim (query g)) (Option.bind (ratioMetric s) good))
            \<and> js_not_str (map_option (\<lambda>b. trim (query b)) (Option.bind (ratioMetric s) bad))
           then Some ''Either Good or Bad metric query is required''
         else if k = ''ratioTotal''
            \<and> js_not_str (map_option (\<lambda>rm. trim (query (total rm))) (ratioMetric s))
           then Some ''Total query is required''
         else m k))"
  by (cases "indicatorType s")
     (auto simp add: validateMetricFields_def Let_def split: option.splits)

lemma validateState_apply:
  "validateState s k =
     (if metricsInPlace s
      then validateMetricFields s
             (if kind s = SLO then validateSloOnly s (validateMetadata s Map.empty)
              else validateMetadata s Map.empty) k
      else (if kind s = SLO then validateSloOnly s (validateMetadata s Map.empty)
            else validateMetadata s Map.empty) k)"
  by (simp add: validateState_def metricsInPlace_def Let_def)

lemmas validate_apply =
  validateState_apply validateMetadata_apply validateSloOnly_apply validateMetricFields_apply

lemmas char_eval = trim_def isWhiteSpace_def isLineTerminator_def lowerAlnum_def

lemma js_not_str_blank:
  "js_not_str (map_option (\<lambda>x. trim (f x)) t) = blankOrAbsent (map_option f t)"
  by (cases t) (simp_all add: blankOrAbsent_def blank_def)

lemma js_not_str_trim: "js_not_str (map_option trim t) = blankOrAbsent t"
  by (cases t) (simp_all add: blankOrAbsent_def blank_def)

lemma option_bind_query:
  "map_option (\<lambda>g. trim (query g)) (Option.bind r f)
     = map_option trim (map_option query (Option.bind r f))"
  by (simp add: option.map_comp comp_def)

lemma ratio_or_threshold: "(t \<noteq> threshold) = (t = ratio)"
  by (cases t) simp_all

lemma isInteger_Ints: "isInteger (Decimal m e) = (dec_value m e \<in> \<int>)"
  by (auto simp: Ints_def)

lemma dec_value_zero: "dec_value 0 e = 0"
  by (simp add: dec_value_def)

lemma count_rule: "(js_not t \<or> js_le t 0 \<or> \<not> isInteger t) = (\<not> positiveInteger t)"
proof (cases t)
  case (Decimal m e)
  then show ?thesis
    using dec_value_zero [of e]
    by (auto simp add: positiveInteger_def isInteger_Ints simp del: isInteger.simps)
qed (simp_all add: positiveInteger_def)

text \<open>A rule that fails is reported under its key, with one exception: the target rule at a
  \<open>NaN\<close> target.\<close>

lemma target_entry:
  "validateState s ''target'' =
     (if kind s = SLO then
        if target s = Undefined \<or> target s = Null then Some ''Target is required''
        else if js_lt (target s) 0 \<or> js_gt (target s) 1 then Some ''Must be between 0.0 and 1.0''
        else None
      else None)"
  by (simp add: validate_apply)

lemma range_test:
  "t \<noteq> NaN \<Longrightarrow> t \<noteq> Undefined \<Longrightarrow> t \<noteq> Null \<Longrightarrow> (js_lt t 0 \<or> js_gt t 1) = (\<not> inUnitInterval t)"
  by (cases t) (auto simp add: inUnitInterval_def)

lemma rule_violated:
  "(validateState s (ruleKey r) \<noteq> None) = (\<not> rulePasses r s \<and> \<not> (r = TargetRule \<and> nanTarget s))"
proof (cases r)
  case NameRule
  then show ?thesis by (simp add: validate_apply blank_def)
next
  case DisplayNameRule
  then show ?thesis by (simp add: validate_apply blank_def)
next
  case ServiceRule
  then show ?thesis by (simp add: validate_apply blank_def)
next
  case TargetRule
  show ?thesis
  proof (cases "target s = NaN")
    case True
    then show ?thesis unfolding TargetRule by (simp add: target_entry nanTarget_def)
  next
    case False
    show ?thesis
    proof (cases "target s = Undefined \<or> target s = Null")
      case True
      then show ?thesis unfolding TargetRule using False by (auto simp add: target_entry nanTarget_def)
    next
      case d: False
      then have "(js_lt (target s) 0 \<or> js_gt (target s) 1) = (\<not> inUnitInterval (target s))"
        using False by (intro range_test) simp_all
      then show ?thesis unfolding TargetRule using False d by (simp add: target_entry nanTarget_def)
    qed
  qed
next
  case TimeWindowCountRule
  then show ?thesis by (simp add: validate_apply count_rule)
next
  case IndicatorRefRule
  then show ?thesis by (simp add: validate_apply js_not_str_trim)
next
  case ThresholdQueryRule
  then show ?thesis by (simp add: validate_apply js_not_str_blank)
next
  case ThresholdValueRule
  then show ?thesis by (simp add: validate_apply split: option.splits)
next
  case RatioTotalRule
  then show ?thesis by (simp add: validate_apply js_not_str_blank ratio_or_threshold)
next
  case RatioGoodBadRule
  then show ?thesis
    by (simp add: validate_apply option_bind_query js_not_str_trim ratio_or_threshold)
qed

lemma validate_other_keys:
  assumes "\<forall>r. k \<noteq> ruleKey r"
  shows "validateState s k = None"
proof -
  have "k \<noteq> ruleKey NameRule" "k \<noteq> ruleKey DisplayNameRule" "k \<noteq> ruleKey ServiceRule"
    "k \<noteq> ruleKey TargetRule" "k \<noteq> ruleKey TimeWindowCountRule" "k \<noteq> ruleKey IndicatorRefRule"
    "k \<noteq> ruleKey ThresholdQueryRule" "k \<noteq> ruleKey ThresholdValueRule"
    "k \<noteq> ruleKey RatioTotalRule" "k \<noteq> ruleKey RatioGoodBadRule"
    using assms by blast+
  then show ?thesis by (simp add: validate_apply)
qed

lemma validate_dom:
  "dom (validateState s)
     = ruleKey ` {r. \<not> rulePasses r s \<and> \<not> (r = TargetRule \<and> nanTarget s)}"
proof (rule set_eqI)
  fix k
  let ?V = "\<lambda>r. \<not> rulePasses r s \<and> \<not> (r = TargetRule \<and> nanTarget s)"
  show "(k \<in> dom (validateState s)) = (k \<in> ruleKey ` {r. ?V r})"
  proof
    assume "k \<in> dom (validateState s)"
    then have ne: "validateState s k \<noteq> None" by (simp add: dom_def)
    have "\<exists>r. k = ruleKey r"
    proof (rule ccontr)
      assume "\<not> (\<exists>r. k = ruleKey r)"
      then have "\<forall>r. k \<noteq> ruleKey r" by simp
      then have "validateState s k = None" by (rule validate_other_keys)
      with ne show False by simp
    qed
    then obtain r where r: "k = ruleKey r" ..
    from ne have "?V r" unfolding r rule_violated .
    then show "k \<in> ruleKey ` {r. ?V r}" unfolding r by (intro imageI CollectI)
  next
    assume "k \<in> ruleKey ` {r. ?V r}"
    then obtain r where r: "k = ruleKey r" and v: "?V r"
      by (elim imageE CollectE)
    from v have "validateState s (ruleKey r) \<noteq> None" unfolding rule_violated .
    then show "k \<in> dom (validateState s)"
      unfolding r by (simp only: dom_def mem_Collect_eq not_False_eq_True)
  qed
qed

lemma default_rules_pass: "rulePasses r DEFAULT_SLO_STATE"
  by (cases r)
     (simp_all add: DEFAULT_SLO_STATE_def blank_def char_eval inUnitInterval_def
        positiveInteger_def dec_value_def metricsInPlace_def blankOrAbsent_def)

lemma default_not_nan: "\<not> nanTarget DEFAULT_SLO_STATE"
  by (simp add: nanTarget_def DEFAULT_SLO_STATE_def)

lemma nanTargetState_rules:
  "nanTarget nanTargetState" "\<not> rulePasses TargetRule nanTargetState"
  "r \<noteq> TargetRule \<Longrightarrow> rulePasses r nanTargetState"
proof -
  show "nanTarget nanTargetState" "\<not> rulePasses TargetRule nanTargetState"
    by (simp_all add: nanTarget_def nanTargetState_def DEFAULT_SLO_STATE_def inUnitInterval_def)
  show "r \<noteq> TargetRule \<Longrightarrow> rulePasses r nanTargetState"
    using default_rules_pass [of r]
    by (cases r) (simp_all add: nanTargetState_def metricsInPlace_def)
qed

lemma nanTargetState_empty: "validateState nanTargetState = Map.empty"
proof -
  have "{r. \<not> rulePasses r nanTargetState \<and> \<not> (r = TargetRule \<and> nanTarget nanTargetState)} = {}"
    using nanTargetState_rules by blast
  then have "dom (validateState nanTargetState) = {}" unfolding validate_dom by simp
  then show ?thesis by simp
qed

text \<open>
  \<^bold>\<open>C1\<close> (what the code does). The rules are those of \<open>rulePasses\<close>, the target rule being
  "defined and in [0,1]". For every configuration other than an SLO with a \<open>NaN\<close> target,
  \<open>validateState\<close> returns the empty mapping if and only if every rule passes, the keys of
  the result are exactly the keys of the rules that fail, and a configuration that violates
  exactly one rule yields a mapping whose only key is the key of that rule. For an SLO with
  a \<open>NaN\<close> target the target rule fails and is not reported: the result is empty if and
  only if the other rules pass, and its keys are those of the other rules that fail. So the
  default configuration with a \<open>NaN\<close> target violates exactly the target rule and gets the
  empty mapping, where the claim asks for the key \<open>target\<close>.
\<close>

theorem validate_empty_vs_rules:
  "(\<not> nanTarget s \<longrightarrow>
       (validateState s = Map.empty \<longleftrightarrow> (\<forall>r. rulePasses r s))
     \<and> dom (validateState s) = ruleKey ` {r. \<not> rulePasses r s}
     \<and> (\<forall>r. \<not> rulePasses r s \<and> (\<forall>r'. r' \<noteq> r \<longrightarrow> rulePasses r' s)
            \<longrightarrow> dom (validateState s) = {ruleKey r}))
   \<and> (nanTarget s \<longrightarrow>
       \<not> rulePasses TargetRule s
     \<and> (validateState s = Map.empty \<longleftrightarrow> (\<forall>r. r \<noteq> TargetRule \<longrightarrow> rulePasses r s))
     \<and> dom (validateState s) = ruleKey ` {r. r \<noteq> TargetRule \<and> \<not> rulePasses r s})"
proof (intro conjI impI)
  assume n: "\<not> nanTarget s"
  then have v: "{r. \<not> rulePasses r s \<and> \<not> (r = TargetRule \<and> nanTarget s)}
                  = {r. \<not> rulePasses r s}"
    by simp
  show d: "dom (validateState s) = ruleKey ` {r. \<not> rulePasses r s}"
    unfolding validate_dom v ..
  have "(validateState s = Map.empty) = (dom (validateState s) = {})" by simp
  also have "\<dots> = ({r. \<not> rulePasses r s} = {})" unfolding d by (rule image_is_empty)
  also have "\<dots> = (\<forall>r. rulePasses r s)" by blast
  finally show "(validateState s = Map.empty) = (\<forall>r. rulePasses r s)" .
  show "\<forall>r. \<not> rulePasses r s \<and> (\<forall>r'. r' \<noteq> r \<longrightarrow> rulePasses r' s)
          \<longrightarrow> dom (validateState s) = {ruleKey r}"
  proof (intro allI impI)
    fix r
    assume "\<not> rulePasses r s \<and> (\<forall>r'. r' \<noteq> r \<longrightarrow> rulePasses r' s)"
    then have "{r. \<not> rulePasses r s} = {r}" by blast
    then show "dom (validateState s) = {ruleKey r}" unfolding d by simp
  qed
next
  assume n: "nanTarget s"
  then show "\<not> rulePasses TargetRule s" by (simp add: nanTarget_def inUnitInterval_def)
  from n have v: "{r. \<not> rulePasses r s \<and> \<not> (r = TargetRule \<and> nanTarget s)}
                  = {r. r \<noteq> TargetRule \<and> \<not> rulePasses r s}"
    by blast
  show d: "dom (validateState s) = ruleKey ` {r. r \<noteq> TargetRule \<and> \<not> rulePasses r s}"
    unfolding validate_dom v ..
  have "(validateState s = Map.empty) = (dom (validateState s) = {})" by simp
  also have "\<dots> = ({r. r \<noteq> TargetRule \<and> \<not> rulePasses r s} = {})"
    unfolding d by (rule image_is_empty)
  also have "\<dots> = (\<forall>r. r \<noteq> TargetRule \<longrightarrow> rulePasses r s)" by blast
  finally show "(validateState s = Map.empty) = (\<forall>r. r \<noteq> TargetRule \<longrightarrow> rulePasses r s)" .
qed

theorem validate_empty_vs_rules_witness:
  "\<not> nanTarget DEFAULT_SLO_STATE
   \<and> (\<forall>r. rulePasses r DEFAULT_SLO_STATE) \<and> validateState DEFAULT_SLO_STATE = Map.empty
   \<and> \<not> nanTarget (DEFAULT_SLO_STATE\<lparr>name := ''-abc''\<rparr>)
   \<and> \<not> rulePasses NameRule (DEFAULT_SLO_STATE\<lparr>name := ''-abc''\<rparr>)
   \<and> rulePasses DisplayNameRule (DEFAULT_SLO_STATE\<lparr>name := ''-abc''\<rparr>)
   \<and> rulePasses ServiceRule (DEFAULT_SLO_STATE\<lparr>name := ''-abc''\<rparr>)
   \<and> rulePasses TargetRule (DEFAULT_SLO_STATE\<lparr>name := ''-abc''\<rparr>)
   \<and> rulePasses TimeWindowCountRule (DEFAULT_SLO_STATE\<lparr>name := ''-abc''\<rparr>)
   \<and> rulePasses IndicatorRefRule (DEFAULT_SLO_STATE\<lparr>name := ''-abc''\<rparr>)
   \<and> rulePasses ThresholdQueryRule (DEFAULT_SLO_STATE\<lparr>name := ''-abc''\<rparr>)
   \<and> rulePasses ThresholdValueRule (DEFAULT_SLO_STATE\<lparr>name := ''-abc''\<rparr>)
   \<and> rulePasses RatioTotalRule (DEFAULT_SLO_STATE\<lparr>name := ''-abc''\<rparr>)
   \<and> rulePasses RatioGoodBadRule (DEFAULT_SLO_STATE\<lparr>name := ''-abc''\<rparr>)
   \<and> dom (validateState (DEFAULT_SLO_STATE\<lparr>name := ''-abc''\<rparr>)) = {''name''}
   \<and> nanTarget nanTargetState
   \<and> \<not> rulePasses TargetRule nanTargetState
   \<and> rulePasses NameRule nanTargetState
   \<and> rulePasses DisplayNameRule nanTargetState
   \<and> rulePasses ServiceRule nanTargetState
   \<and> rulePasses TimeWindowCountRule nanTargetState
   \<and> rulePasses IndicatorRefRule nanTargetState
   \<and> rulePasses ThresholdQueryRule nanTargetState
   \<and> rulePasses ThresholdValueRule nanTargetState
   \<and> rulePasses RatioTotalRule nanTargetState
   \<and> rulePasses RatioGoodBadRule nanTargetState
   \<and> validateState nanTargetState = Map.empty"
proof -
  let ?n = "DEFAULT_SLO_STATE\<lparr>name := ''-abc''\<rparr>"
  have a: "\<forall>r. rulePasses r DEFAULT_SLO_STATE" using default_rules_pass by blast
  have n: "\<not> nanTarget ?n" using default_not_nan by (simp add: nanTarget_def)
  have b: "\<not> rulePasses NameRule ?n"
    by (simp add: blank_def char_eval)
  have c: "r' \<noteq> NameRule \<Longrightarrow> rulePasses r' ?n" for r'
    using default_rules_pass [of r'] by (cases r') (simp_all add: metricsInPlace_def)
  from validate_empty_vs_rules [of DEFAULT_SLO_STATE] a default_not_nan
  have d: "validateState DEFAULT_SLO_STATE = Map.empty" by blast
  from validate_empty_vs_rules [of ?n] n b c
  have "dom (validateState ?n) = {ruleKey NameRule}"
    by blast
  then have e: "dom (validateState ?n) = {''name''}"
    by simp
  have o: "\<forall>r. r \<noteq> TargetRule \<longrightarrow> rulePasses r nanTargetState"
    using nanTargetState_rules(3) by blast
  from validate_empty_vs_rules [of nanTargetState] nanTargetState_rules(1) o
  have f: "validateState nanTargetState = Map.empty" by blast
  from a b d e f n default_not_nan nanTargetState_rules(1,2)
    c [of DisplayNameRule] c [of ServiceRule] c [of TargetRule]
    c [of TimeWindowCountRule] c [of IndicatorRefRule] c [of ThresholdQueryRule]
    c [of ThresholdValueRule] c [of RatioTotalRule] c [of RatioGoodBadRule]
    nanTargetState_rules(3) [of NameRule] nanTargetState_rules(3) [of DisplayNameRule]
    nanTargetState_rules(3) [of ServiceRule] nanTargetState_rules(3) [of TimeWindowCountRule]
    nanTargetState_rules(3) [of IndicatorRefRule] nanTargetState_rules(3) [of ThresholdQueryRule]
    nanTargetState_rules(3) [of ThresholdValueRule] nanTargetState_rules(3) [of RatioTotalRule]
    nanTargetState_rules(3) [of RatioGoodBadRule]
  show ?thesis by (simp only: rule.distinct not_False_eq_True simp_thms)
qed

text \<open>
  \<^bold>\<open>C6.\<close> Under the key \<open>name\<close> the validator reports "required" exactly when the name is blank
  after trimming, and otherwise the pattern message exactly when the name does not match
  \<open>^[a-z0-9]([-a-z0-9]*[a-z0-9])?$\<close>. The names \<open>my-service\<close>, \<open>a\<close> and \<open>a1-b2\<close> get no
  entry; \<open>My-Service\<close>, \<open>-abc\<close>, \<open>abc-\<close>, \<open>ab_c\<close> and the empty name get one.
\<close>

theorem name_rule:
  "(validateState s ''name'' = Some ''Name is required'' \<longleftrightarrow> trim (name s) = [])
   \<and> (validateState s ''name'' = Some ''Must be lowercase alphanumeric (kebab-case)''
        \<longleftrightarrow> trim (name s) \<noteq> [] \<and> \<not> k8sNameRegex (name s))
   \<and> (validateState s ''name'' = None \<longleftrightarrow> trim (name s) \<noteq> [] \<and> k8sNameRegex (name s))
   \<and> validateState (s\<lparr>name := ''my-service''\<rparr>) ''name'' = None
   \<and> validateState (s\<lparr>name := ''a''\<rparr>) ''name'' = None
   \<and> validateState (s\<lparr>name := ''a1-b2''\<rparr>) ''name'' = None
   \<and> validateState (s\<lparr>name := ''My-Service''\<rparr>) ''name''
        = Some ''Must be lowercase alphanumeric (kebab-case)''
   \<and> validateState (s\<lparr>name := ''-abc''\<rparr>) ''name''
        = Some ''Must be lowercase alphanumeric (kebab-case)''
   \<and> validateState (s\<lparr>name := ''abc-''\<rparr>) ''name''
        = Some ''Must be lowercase alphanumeric (kebab-case)''
   \<and> validateState (s\<lparr>name := ''ab_c''\<rparr>) ''name''
        = Some ''Must be lowercase alphanumeric (kebab-case)''
   \<and> validateState (s\<lparr>name := []\<rparr>) ''name'' = Some ''Name is required''"
proof -
  have g: "validateState s ''name'' =
     (if trim (name s) = [] then Some ''Name is required''
      else if \<not> k8sNameRegex (name s) then Some ''Must be lowercase alphanumeric (kebab-case)''
      else None)" for s
    by (simp add: validate_apply)
  have 1: "(validateState s ''name'' = Some ''Name is required'' \<longleftrightarrow> trim (name s) = [])"
    by (simp add: g)
  have 2: "(validateState s ''name'' = Some ''Must be lowercase alphanumeric (kebab-case)''
        \<longleftrightarrow> trim (name s) \<noteq> [] \<and> \<not> k8sNameRegex (name s))"
    by (simp add: g)
  have 3: "(validateState s ''name'' = None \<longleftrightarrow> trim (name s) \<noteq> [] \<and> k8sNameRegex (name s))"
    by (simp add: g)
  have 4: "validateState (s\<lparr>name := ''my-service''\<rparr>) ''name'' = None"
    by (simp add: g char_eval)
  have 5: "validateState (s\<lparr>name := ''a''\<rparr>) ''name'' = None"
    by (simp add: g char_eval)
  have 6: "validateState (s\<lparr>name := ''a1-b2''\<rparr>) ''name'' = None"
    by (simp add: g char_eval)
  have 7: "validateState (s\<lparr>name := ''My-Service''\<rparr>) ''name''
        = Some ''Must be lowercase alphanumeric (kebab-case)''"
    by (simp add: g char_eval)
  have 8: "validateState (s\<lparr>name := ''-abc''\<rparr>) ''name''
        = Some ''Must be lowercase alphanumeric (kebab-case)''"
    by (simp add: g char_eval)
  have 9: "validateState (s\<lparr>name := ''abc-''\<rparr>) ''name''
        = Some ''Must be lowercase alphanumeric (kebab-case)''"
    by (simp add: g char_eval)
  have 10: "validateState (s\<lparr>name := ''ab_c''\<rparr>) ''name''
        = Some ''Must be lowercase alphanumeric (kebab-case)''"
    by (simp add: g char_eval)
  have 11: "validateState (s\<lparr>name := []\<rparr>) ''name'' = Some ''Name is required''"
    by (simp add: g char_eval)
  from 1 2 3 4 5 6 7 8 9 10 11 show ?thesis by (intro conjI)
qed

theorem name_rule_witness:
  "trim (name DEFAULT_SLO_STATE) \<noteq> [] \<and> k8sNameRegex (name DEFAULT_SLO_STATE)
   \<and> validateState DEFAULT_SLO_STATE ''name'' = None
   \<and> validateState (DEFAULT_SLO_STATE\<lparr>name := ''-abc''\<rparr>) ''name''
        = Some ''Must be lowercase alphanumeric (kebab-case)''"
proof -
  have a: "trim (name DEFAULT_SLO_STATE) \<noteq> []" "k8sNameRegex (name DEFAULT_SLO_STATE)"
    by (simp_all add: DEFAULT_SLO_STATE_def char_eval)
  with name_rule [of DEFAULT_SLO_STATE] show ?thesis by blast
qed

text \<open>
  \<^bold>\<open>C7\<close> (what the code does). For a configuration of kind SLO, the validator reports
  "required" under the key \<open>target\<close> exactly when the target is \<open>undefined\<close> or \<open>null\<close>.
  For every target other than \<open>NaN\<close> it reports the range message exactly when the target
  is defined and outside the closed interval from 0 to 1, and nothing exactly when the
  target is in the interval. The values 0 and 1 get no entry; -0.0001, 1.0001 and
  \<open>undefined\<close> get one. A \<open>NaN\<close> target is defined and not in the interval, and gets no
  entry, where the claim asks for the range message.
\<close>

theorem target_entry_vs_interval:
  "kind s = SLO \<Longrightarrow>
     (validateState s ''target'' = Some ''Target is required''
        \<longleftrightarrow> target s = Undefined \<or> target s = Null)
   \<and> (target s \<noteq> NaN \<longrightarrow>
        (validateState s ''target'' = Some ''Must be between 0.0 and 1.0''
           \<longleftrightarrow> target s \<noteq> Undefined \<and> target s \<noteq> Null \<and> \<not> inUnitInterval (target s)))
   \<and> (target s \<noteq> NaN \<longrightarrow>
        (validateState s ''target'' = None \<longleftrightarrow> inUnitInterval (target s)))
   \<and> (target s = NaN \<longrightarrow>
        target s \<noteq> Undefined \<and> target s \<noteq> Null \<and> \<not> inUnitInterval (target s)
        \<and> validateState s ''target'' = None)
   \<and> validateState (s\<lparr>target := Decimal 0 0\<rparr>) ''target'' = None
   \<and> validateState (s\<lparr>target := Decimal 1 0\<rparr>) ''target'' = None
   \<and> validateState (s\<lparr>target := Decimal (- 1) (- 4)\<rparr>) ''target''
        = Some ''Must be between 0.0 and 1.0''
   \<and> validateState (s\<lparr>target := Decimal 10001 (- 4)\<rparr>) ''target''
        = Some ''Must be between 0.0 and 1.0''
   \<and> validateState (s\<lparr>target := Undefined\<rparr>) ''target'' = Some ''Target is required''"
proof -
  assume k: "kind s = SLO"
  have u: "inUnitInterval t \<Longrightarrow> t \<noteq> Undefined \<and> t \<noteq> Null" for t
    by (cases t) (simp_all add: inUnitInterval_def)
  have 1: "(validateState s ''target'' = Some ''Target is required''
        \<longleftrightarrow> target s = Undefined \<or> target s = Null)"
    using k by (simp add: target_entry)
  have 2: "target s \<noteq> NaN \<longrightarrow>
        (validateState s ''target'' = Some ''Must be between 0.0 and 1.0''
           \<longleftrightarrow> target s \<noteq> Undefined \<and> target s \<noteq> Null \<and> \<not> inUnitInterval (target s))"
    using k range_test [of "target s"] by (auto simp add: target_entry)
  have 3: "target s \<noteq> NaN \<longrightarrow>
        (validateState s ''target'' = None \<longleftrightarrow> inUnitInterval (target s))"
    using k range_test [of "target s"] u [of "target s"] by (auto simp add: target_entry)
  have 4: "target s = NaN \<longrightarrow>
        target s \<noteq> Undefined \<and> target s \<noteq> Null \<and> \<not> inUnitInterval (target s)
        \<and> validateState s ''target'' = None"
    using k by (simp add: target_entry inUnitInterval_def)
  have 5: "validateState (s\<lparr>target := Decimal 0 0\<rparr>) ''target'' = None"
    using k by (simp add: target_entry dec_value_def)
  have 6: "validateState (s\<lparr>target := Decimal 1 0\<rparr>) ''target'' = None"
    using k by (simp add: target_entry dec_value_def)
  have 7: "validateState (s\<lparr>target := Decimal (- 1) (- 4)\<rparr>) ''target''
        = Some ''Must be between 0.0 and 1.0''"
    using k by (simp add: target_entry dec_value_def)
  have 8: "validateState (s\<lparr>target := Decimal 10001 (- 4)\<rparr>) ''target''
        = Some ''Must be between 0.0 and 1.0''"
    using k by (simp add: target_entry dec_value_def)
  have 9: "validateState (s\<lparr>target := Undefined\<rparr>) ''target'' = Some ''Target is required''"
    using k by (simp add: target_entry)
  from 1 2 3 4 5 6 7 8 9 show ?thesis by (intro conjI)
qed

theorem target_entry_vs_interval_witness:
  "kind DEFAULT_SLO_STATE = SLO \<and> inUnitInterval (target DEFAULT_SLO_STATE)
   \<and> validateState DEFAULT_SLO_STATE ''target'' = None
   \<and> validateState (DEFAULT_SLO_STATE\<lparr>target := Decimal 10001 (- 4)\<rparr>) ''target''
        = Some ''Must be between 0.0 and 1.0''
   \<and> kind (DEFAULT_SLO_STATE\<lparr>target := PosInfinity\<rparr>) = SLO
   \<and> \<not> inUnitInterval (target (DEFAULT_SLO_STATE\<lparr>target := PosInfinity\<rparr>))
   \<and> validateState (DEFAULT_SLO_STATE\<lparr>target := PosInfinity\<rparr>) ''target''
        = Some ''Must be between 0.0 and 1.0''
   \<and> kind nanTargetState = SLO \<and> target nanTargetState = NaN
   \<and> \<not> inUnitInterval (target nanTargetState)
   \<and> validateState nanTargetState ''target'' = None"
proof -
  let ?i = "DEFAULT_SLO_STATE\<lparr>target := PosInfinity\<rparr>"
  have k: "kind DEFAULT_SLO_STATE = SLO" by (simp add: DEFAULT_SLO_STATE_def)
  have t: "target DEFAULT_SLO_STATE \<noteq> NaN" "inUnitInterval (target DEFAULT_SLO_STATE)"
    by (simp_all add: DEFAULT_SLO_STATE_def inUnitInterval_def dec_value_def)
  have ki: "kind ?i = SLO" by (simp add: DEFAULT_SLO_STATE_def)
  have ti: "target ?i \<noteq> NaN" "target ?i \<noteq> Undefined" "target ?i \<noteq> Null"
    "\<not> inUnitInterval (target ?i)"
    by (simp_all add: inUnitInterval_def)
  have kn: "kind nanTargetState = SLO" "target nanTargetState = NaN"
    by (simp_all add: nanTargetState_def DEFAULT_SLO_STATE_def)
  from target_entry_vs_interval [OF k] t
  have a: "validateState DEFAULT_SLO_STATE ''target'' = None"
    "validateState (DEFAULT_SLO_STATE\<lparr>target := Decimal 10001 (- 4)\<rparr>) ''target''
        = Some ''Must be between 0.0 and 1.0''"
    by blast+
  from target_entry_vs_interval [OF ki] ti
  have b: "validateState ?i ''target'' = Some ''Must be between 0.0 and 1.0''" by blast
  from target_entry_vs_interval [OF kn(1)] kn(2)
  have c: "\<not> inUnitInterval (target nanTargetState)"
    "validateState nanTargetState ''target'' = None"
    by blast+
  from k t(2) a ki ti(4) b kn c show ?thesis by (intro conjI)
qed

text \<open>
  \<^bold>\<open>C8.\<close> For a configuration of kind SLO, the validator reports a message under the key
  \<open>timeWindowCount\<close> exactly when the count is falsy, less than or equal to 0, or not an
  integer, that is, exactly when it is not a positive integer. The value 1 gets no entry;
  0, -5 and 2.5 get one.
\<close>

theorem timeWindowCount_rule:
  "kind s = SLO \<Longrightarrow>
     (validateState s ''timeWindowCount'' = Some ''Must be a positive integer''
        \<longleftrightarrow> js_not (timeWindowCount s) \<or> js_le (timeWindowCount s) 0
             \<or> \<not> isInteger (timeWindowCount s))
   \<and> (validateState s ''timeWindowCount'' = None
        \<longleftrightarrow> (\<exists>m e. timeWindowCount s = Decimal m e \<and> 0 < dec_value m e
                   \<and> dec_value m e \<in> \<int>))
   \<and> validateState (s\<lparr>timeWindowCount := Decimal 1 0\<rparr>) ''timeWindowCount'' = None
   \<and> validateState (s\<lparr>timeWindowCount := Decimal 0 0\<rparr>) ''timeWindowCount''
        = Some ''Must be a positive integer''
   \<and> validateState (s\<lparr>timeWindowCount := Decimal (- 5) 0\<rparr>) ''timeWindowCount''
        = Some ''Must be a positive integer''
   \<and> validateState (s\<lparr>timeWindowCount := Decimal 25 (- 1)\<rparr>) ''timeWindowCount''
        = Some ''Must be a positive integer''"
proof -
  assume k: "kind s = SLO"
  have g: "kind s = SLO \<Longrightarrow> validateState s ''timeWindowCount'' =
     (if js_not (timeWindowCount s) \<or> js_le (timeWindowCount s) 0
           \<or> \<not> isInteger (timeWindowCount s)
      then Some ''Must be a positive integer'' else None)" for s
    by (simp add: validate_apply)
  have 1: "(validateState s ''timeWindowCount'' = Some ''Must be a positive integer''
        \<longleftrightarrow> js_not (timeWindowCount s) \<or> js_le (timeWindowCount s) 0
             \<or> \<not> isInteger (timeWindowCount s))"
    using k by (simp add: g)
  have 2: "(validateState s ''timeWindowCount'' = None
        \<longleftrightarrow> (\<exists>m e. timeWindowCount s = Decimal m e \<and> 0 < dec_value m e
                   \<and> dec_value m e \<in> \<int>))"
    using k by (simp add: g count_rule positiveInteger_def split: jsnum.splits)
  have 3: "validateState (s\<lparr>timeWindowCount := Decimal 1 0\<rparr>) ''timeWindowCount'' = None"
    using k by (simp add: g dec_value_def)
  have 4: "validateState (s\<lparr>timeWindowCount := Decimal 0 0\<rparr>) ''timeWindowCount''
        = Some ''Must be a positive integer''"
    using k by (simp add: g dec_value_def)
  have 5: "validateState (s\<lparr>timeWindowCount := Decimal (- 5) 0\<rparr>) ''timeWindowCount''
        = Some ''Must be a positive integer''"
    using k by (simp add: g dec_value_def)
  have fl: "\<lfloor>(5::rat) / 2\<rfloor> = 2" by (rule floor_unique) simp_all
  have 6: "validateState (s\<lparr>timeWindowCount := Decimal 25 (- 1)\<rparr>) ''timeWindowCount''
        = Some ''Must be a positive integer''"
    using k by (simp add: g dec_value_def fl)
  from 1 2 3 4 5 6 show ?thesis by (intro conjI)
qed

theorem timeWindowCount_rule_witness:
  "kind DEFAULT_SLO_STATE = SLO \<and> validateState DEFAULT_SLO_STATE ''timeWindowCount'' = None
   \<and> validateState (DEFAULT_SLO_STATE\<lparr>timeWindowCount := Decimal 25 (- 1)\<rparr>) ''timeWindowCount''
        = Some ''Must be a positive integer''"
proof -
  have k: "kind DEFAULT_SLO_STATE = SLO" by (simp add: DEFAULT_SLO_STATE_def)
  have t: "timeWindowCount DEFAULT_SLO_STATE = Decimal 28 0" by (simp add: DEFAULT_SLO_STATE_def)
  have v: "0 < dec_value 28 0 \<and> dec_value 28 0 \<in> \<int>" by (simp add: dec_value_def)
  from timeWindowCount_rule [OF k] t v k show ?thesis by blast
qed

section \<open>Lines of a text\<close>

lemma blank_iff: "blank t = (\<forall>c\<in>set t. isWhiteSpace c)"
proof
  assume "blank t"
  then have a: "\<forall>c\<in>set (dropWhile isWhiteSpace t). isWhiteSpace c"
    by (simp add: blank_def trim_def)
  have "dropWhile isWhiteSpace t = []"
  proof (cases "dropWhile isWhiteSpace t")
    case Nil
    then show ?thesis .
  next
    case (Cons x xs)
    then have "\<not> isWhiteSpace x" using hd_dropWhile [of isWhiteSpace t] by simp
    with a Cons show ?thesis by simp
  qed
  then show "\<forall>c\<in>set t. isWhiteSpace c" by simp
next
  assume "\<forall>c\<in>set t. isWhiteSpace c"
  then show "blank t" by (auto simp add: blank_def trim_def dest: set_dropWhileD)
qed

lemma join_nl_Cons: "ls \<noteq> [] \<Longrightarrow> join_nl (l # ls) = l @ CHR 0x0A # join_nl ls"
  by (cases ls) simp_all

lemma join_nl_append:
  "xs \<noteq> [] \<Longrightarrow> ys \<noteq> [] \<Longrightarrow> join_nl (xs @ ys) = join_nl xs @ CHR 0x0A # join_nl ys"
proof (induction xs rule: join_nl.induct)
  case 1
  then show ?case by simp
next
  case (2 l)
  then show ?case by (simp add: join_nl_Cons)
next
  case (3 l m ls)
  then show ?case by simp
qed

lemma splitLines_append_nl:
  "splitLines cur (a @ CHR 0x0A # b) = splitLines cur a @ splitLines [] b"
  by (induction a arbitrary: cur) simp_all

lemma splitLines_single: "CHR 0x0A \<notin> set l \<Longrightarrow> splitLines cur l = [cur @ l]"
  by (induction l arbitrary: cur) auto

lemma split_nl_append_nl: "split_nl (a @ CHR 0x0A # b) = split_nl a @ split_nl b"
  by (simp add: split_nl_def splitLines_append_nl)

lemma split_nl_single: "CHR 0x0A \<notin> set l \<Longrightarrow> split_nl l = [l]"
  by (simp add: split_nl_def splitLines_single)

lemma split_nl_join: "ls \<noteq> [] \<Longrightarrow> split_nl (join_nl ls) = concat (map split_nl ls)"
proof (induction ls rule: join_nl.induct)
  case 1
  then show ?case by simp
next
  case (2 l)
  then show ?case by simp
next
  case (3 l m ls)
  then show ?case by (simp add: split_nl_append_nl)
qed

lemma split_nl_join_single:
  "ls \<noteq> [] \<Longrightarrow> \<forall>l\<in>set ls. CHR 0x0A \<notin> set l \<Longrightarrow> split_nl (join_nl ls) = ls"
proof (induction ls rule: join_nl.induct)
  case 1
  then show ?case by simp
next
  case (2 l)
  then show ?case by (simp add: split_nl_single)
next
  case (3 l m ls)
  then show ?case by (simp add: split_nl_append_nl split_nl_single)
qed



lemma splitLines_nonempty: "splitLines cur s \<noteq> []"
  by (induction s arbitrary: cur) simp_all

lemma split_nl_nonempty: "split_nl s \<noteq> []"
  by (simp add: split_nl_def splitLines_nonempty)

lemma join_split: "join_nl (split_nl s) = s"
proof -
  have "join_nl (splitLines cur s) = cur @ s" for cur
  proof (induction s arbitrary: cur)
    case Nil
    then show ?case by simp
  next
    case (Cons c s)
    then show ?case by (simp add: join_nl_Cons splitLines_nonempty)
  qed
  then show ?thesis by (simp add: split_nl_def)
qed


lemma indentLines_join:
  assumes "ls \<noteq> []" "\<forall>l\<in>set ls. CHR 0x0A \<notin> set l"
  shows "indentLines pad (join_nl ls) = join_nl (map (\<lambda>l. pad @ l) ls)"
  unfolding indentLines_def using assms by (simp add: split_nl_join_single)

lemma line_in_join:
  "l \<in> set ls \<Longrightarrow> CHR 0x0A \<notin> set l \<Longrightarrow> l \<in> set (split_nl (join_nl ls))"
proof -
  assume a: "l \<in> set ls" "CHR 0x0A \<notin> set l"
  then have "ls \<noteq> []" by auto
  then have "split_nl (join_nl ls) = concat (map split_nl ls)" by (rule split_nl_join)
  moreover have "l \<in> set (split_nl l)" using a by (simp add: split_nl_single)
  ultimately show ?thesis using a by auto
qed

section \<open>What the replacement of empty lines removes\<close>

lemma matchBlank_Nil: "matchBlank [] = None"
  by (simp add: matchBlank_def)

lemma rb_True:
  "s \<noteq> [] \<Longrightarrow> replaceBlankLines True s =
     (case matchBlank s of
        Some n \<Rightarrow> replaceBlankLines True (drop n s)
      | None \<Rightarrow> hd s # replaceBlankLines (isLineTerminator (hd s)) (tl s))"
  by (cases s) (auto simp add: replaceBlankLines.simps split: option.splits)

lemma rb_False: "replaceBlankLines False (c # cs) = c # replaceBlankLines (isLineTerminator c) cs"
  by (simp add: replaceBlankLines.simps)

lemma rb_Nil: "replaceBlankLines b [] = []"
  by (simp add: replaceBlankLines.simps)

lemma rb_copy:
  "\<forall>c\<in>set l. \<not> isLineTerminator c \<Longrightarrow>
     replaceBlankLines False (l @ rest) = l @ replaceBlankLines False rest"
  by (induction l) (simp_all add: rb_False)

lemma nl_white: "isWhiteSpace (CHR 0x0A)" and nl_term: "isLineTerminator (CHR 0x0A)"
  by (simp_all add: isWhiteSpace_def isLineTerminator_def)

lemma matchBlank_no_nl: "CHR 0x0A \<notin> set (takeWhile isWhiteSpace s) \<Longrightarrow> matchBlank s = None"
  by (simp add: matchBlank_def)

lemma matchBlank_append:
  assumes "\<exists>c\<in>set x. \<not> isWhiteSpace c"
  shows "matchBlank (x @ z) = matchBlank x"
proof -
  have "takeWhile isWhiteSpace (x @ z) = takeWhile isWhiteSpace x"
    using assms by (auto simp: takeWhile_append1)
  then show ?thesis by (simp add: matchBlank_def)
qed

lemma matchBlank_le: "matchBlank s = Some n \<Longrightarrow> 0 < n \<and> n \<le> length (takeWhile isWhiteSpace s)"
proof -
  assume a: "matchBlank s = Some n"
  define ws where "ws = takeWhile isWhiteSpace s"
  define tw where "tw = takeWhile (\<lambda>c. c \<noteq> CHR 0x0A) (rev ws)"
  from a have mem: "CHR 0x0A \<in> set (rev ws)" and n: "n = length ws - length tw"
    by (auto simp: matchBlank_def ws_def tw_def Let_def split: if_splits)
  from mem have "dropWhile (\<lambda>c. c \<noteq> CHR 0x0A) (rev ws) \<noteq> []" by simp
  moreover have "length tw + length (dropWhile (\<lambda>c. c \<noteq> CHR 0x0A) (rev ws)) = length ws"
    unfolding tw_def by (metis length_append length_rev takeWhile_dropWhile_id)
  ultimately have "0 < n" using n by (cases "dropWhile (\<lambda>c. c \<noteq> CHR 0x0A) (rev ws)") auto
  with n show ?thesis by (simp add: ws_def)
qed

text \<open>A line with something other than white space on it is kept.\<close>

lemma rb_line:
  assumes "\<forall>c\<in>set l. \<not> isLineTerminator c" "\<not> blank l"
  shows "replaceBlankLines True (l @ CHR 0x0A # rest) = l @ CHR 0x0A # replaceBlankLines True rest"
proof -
  from assms(2) have ex: "\<exists>c\<in>set l. \<not> isWhiteSpace c" by (simp add: blank_iff)
  then obtain c l' where l: "l = c # l'" by (cases l) auto
  have "CHR 0x0A \<notin> set l" using assms(1) nl_term by auto
  then have "CHR 0x0A \<notin> set (takeWhile isWhiteSpace l)" by (auto dest: set_takeWhileD)
  then have "matchBlank l = None" by (rule matchBlank_no_nl)
  then have m: "matchBlank (l @ CHR 0x0A # rest) = None" using matchBlank_append [OF ex] by simp
  have "replaceBlankLines True (l @ CHR 0x0A # rest)
          = c # replaceBlankLines (isLineTerminator c) (l' @ CHR 0x0A # rest)"
    using m by (simp add: rb_True l)
  also have "\<dots> = c # replaceBlankLines False (l' @ CHR 0x0A # rest)"
    using assms(1) l by simp
  also have "\<dots> = c # l' @ replaceBlankLines False (CHR 0x0A # rest)"
    using assms(1) l by (simp add: rb_copy)
  also have "\<dots> = l @ CHR 0x0A # replaceBlankLines True rest"
    by (simp add: rb_False l nl_term)
  finally show ?thesis .
qed

text \<open>The last line is kept, blank or not.\<close>

lemma rb_last:
  assumes "\<forall>c\<in>set l. \<not> isLineTerminator c"
  shows "replaceBlankLines b l = l"
proof (cases l)
  case Nil
  then show ?thesis by (simp add: rb_Nil)
next
  case (Cons c l')
  have f: "replaceBlankLines False l' = l'"
    using rb_copy [of l' "[]"] assms Cons by (simp add: rb_Nil)
  have "CHR 0x0A \<notin> set l" using assms nl_term by auto
  then have "CHR 0x0A \<notin> set (takeWhile isWhiteSpace l)" by (auto dest: set_takeWhileD)
  then have "matchBlank l = None" by (rule matchBlank_no_nl)
  then have "replaceBlankLines True l = l" using Cons assms f by (simp add: rb_True)
  moreover have "replaceBlankLines False l = l" using Cons assms f by (simp add: rb_False)
  ultimately show ?thesis by (cases b) simp_all
qed

text \<open>A line of white space only, and the line feed behind it, are removed.\<close>

lemma rb_blank:
  assumes "blank l"
  shows "replaceBlankLines True (l @ CHR 0x0A # rest) = replaceBlankLines True rest"
proof -
  define s where "s = l @ CHR 0x0A # rest"
  define wr where "wr = takeWhile isWhiteSpace rest"
  have all: "\<forall>c\<in>set l. isWhiteSpace c" using assms by (simp add: blank_iff)
  have ws: "takeWhile isWhiteSpace s = l @ CHR 0x0A # wr"
    using all by (simp add: s_def wr_def takeWhile_append2 nl_white)
  have ne: "s \<noteq> []" by (simp add: s_def)
  show ?thesis
  proof (cases "CHR 0x0A \<in> set wr")
    case True
    define t where "t = takeWhile (\<lambda>c. c \<noteq> CHR 0x0A) (rev wr)"
    have tl: "length t \<le> length wr"
      unfolding t_def by (metis length_rev length_takeWhile_le)
    have "takeWhile (\<lambda>c. c \<noteq> CHR 0x0A) (rev (l @ CHR 0x0A # wr)) = t"
      using True by (simp add: t_def takeWhile_append1)
    then have ms: "matchBlank s = Some (length l + 1 + (length wr - length t))"
      using tl by (simp add: matchBlank_def ws)
    have mr: "matchBlank rest = Some (length wr - length t)"
      using True by (simp add: matchBlank_def wr_def [symmetric] t_def)
    from True have rest_ne: "rest \<noteq> []" by (auto simp: wr_def)
    have "replaceBlankLines True s = replaceBlankLines True (drop (length l + 1 + (length wr - length t)) s)"
      using ms ne by (simp add: rb_True)
    also have "drop (length l + 1 + (length wr - length t)) s = drop (length wr - length t) rest"
      by (simp add: s_def)
    also have "replaceBlankLines True (drop (length wr - length t) rest) = replaceBlankLines True rest"
      using mr rest_ne by (simp add: rb_True)
    finally show ?thesis by (simp add: s_def)
  next
    case False
    have "\<And>x. x \<in> set (rev wr) \<Longrightarrow> x \<noteq> CHR 0x0A" using False by auto
    then have "takeWhile (\<lambda>c. c \<noteq> CHR 0x0A) (rev wr @ CHR 0x0A # rev l) = rev wr"
      by (subst takeWhile_append2) simp_all
    then have "takeWhile (\<lambda>c. c \<noteq> CHR 0x0A) (rev (l @ CHR 0x0A # wr)) = rev wr"
      by simp
    then have ms: "matchBlank s = Some (length l + 1)"
      by (simp add: matchBlank_def ws)
    have "replaceBlankLines True s = replaceBlankLines True (drop (length l + 1) s)"
      using ms ne by (simp add: rb_True)
    also have "drop (length l + 1) s = rest" by (simp add: s_def)
    finally show ?thesis by (simp add: s_def)
  qed
qed


text \<open>An added blank line makes no difference, whatever stands before and behind it.\<close>

lemma rb_insert_blank:
  assumes w: "blank w"
  shows "replaceBlankLines b (x @ CHR 0x0A # w @ CHR 0x0A # y)
           = replaceBlankLines b (x @ CHR 0x0A # y)"
proof (induction "length x" arbitrary: x b rule: less_induct)
  case less
  show ?case
  proof (cases x)
    case Nil
    have "blank (CHR 0x0A # w)" using w by (simp add: blank_iff nl_white)
    then have "replaceBlankLines True ((CHR 0x0A # w) @ CHR 0x0A # y) = replaceBlankLines True y"
      by (rule rb_blank)
    moreover have "replaceBlankLines True ([] @ CHR 0x0A # y) = replaceBlankLines True y"
      by (rule rb_blank) (simp add: blank_iff)
    moreover have "replaceBlankLines True (w @ CHR 0x0A # y) = replaceBlankLines True y"
      using w by (rule rb_blank)
    ultimately show ?thesis using Nil by (cases b) (simp_all add: rb_False nl_term)
  next
    case (Cons c x')
    show ?thesis
    proof (cases b)
      case False
      then show ?thesis using Cons less [of x'] by (simp add: rb_False)
    next
      case True
      show ?thesis
      proof (cases "blank x")
        case bx: True
        then have "blank (x @ CHR 0x0A # w)" using w by (auto simp add: blank_iff nl_white)
        then have "replaceBlankLines True ((x @ CHR 0x0A # w) @ CHR 0x0A # y)
                     = replaceBlankLines True y"
          by (rule rb_blank)
        moreover have "replaceBlankLines True (x @ CHR 0x0A # y) = replaceBlankLines True y"
          using bx by (rule rb_blank)
        ultimately show ?thesis using True by simp
      next
        case False
        then have ex: "\<exists>c\<in>set x. \<not> isWhiteSpace c" by (simp add: blank_iff)
        have m: "matchBlank (x @ z) = matchBlank x" for z
          using ex by (rule matchBlank_append)
        show ?thesis
        proof (cases "matchBlank x")
          case None
          then show ?thesis using True Cons m less [of x'] by (simp add: rb_True)
        next
          case (Some n)
          then have n: "0 < n" "n \<le> length x"
            using matchBlank_le [of x n] length_takeWhile_le [of isWhiteSpace x] by auto
          then have d: "drop n (x @ z) = drop n x @ z" for z by simp
          have "length (drop n x) < length x" using n Cons by simp
          then have "replaceBlankLines True (drop n x @ CHR 0x0A # w @ CHR 0x0A # y)
                       = replaceBlankLines True (drop n x @ CHR 0x0A # y)"
            by (rule less)
          then show ?thesis using True Some Cons m d by (simp add: rb_True)
        qed
      qed
    qed
  qed
qed

text \<open>On lines without line terminators the replacement removes the blank lines, and only
  them; the last line stays.\<close>

lemma rb_lines:
  assumes "ls \<noteq> []" "\<forall>l\<in>set ls. \<forall>c\<in>set l. \<not> isLineTerminator c"
  shows "replaceBlankLines True (join_nl ls)
           = join_nl (filter (\<lambda>l. \<not> blank l) (butlast ls) @ [last ls])"
  using assms
proof (induction ls rule: join_nl.induct)
  case 1
  then show ?case by simp
next
  case (2 l)
  then show ?case by (simp add: rb_last)
next
  case (3 l m ls)
  then have ih: "replaceBlankLines True (join_nl (m # ls))
                   = join_nl (filter (\<lambda>l. \<not> blank l) (butlast (m # ls)) @ [last (m # ls)])"
    by simp
  show ?case
  proof (cases "blank l")
    case True
    then show ?thesis using ih by (simp add: rb_blank)
  next
    case False
    have "\<forall>c\<in>set l. \<not> isLineTerminator c" using "3.prems" by simp
    then have "replaceBlankLines True (l @ CHR 0x0A # join_nl (m # ls))
                 = l @ CHR 0x0A # replaceBlankLines True (join_nl (m # ls))"
      using False by (rule rb_line)
    then show ?thesis using False ih by (simp add: join_nl_Cons)
  qed
qed

lemma rb_lines_nonblank:
  assumes "ls \<noteq> []" "\<forall>l\<in>set ls. \<forall>c\<in>set l. \<not> isLineTerminator c" "\<forall>l\<in>set (butlast ls). \<not> blank l"
  shows "replaceBlankLines True (join_nl ls) = join_nl ls"
proof -
  have "filter (\<lambda>l. \<not> blank l) (butlast ls) = butlast ls" using assms(3) by simp
  then show ?thesis using rb_lines [OF assms(1,2)] assms(1) by simp
qed

section \<open>The renderer returns a text\<close>

lemma deref_Some: "deref (Some x) = Inr x" and deref_None: "deref None = Inl TypeError"
  by (simp_all add: deref_def)

lemma bind_err_Inr: "bind_err (Inr x) f = f x" and bind_err_Inl: "bind_err (Inl e) f = Inl e"
  by (simp_all add: bind_err_def)

lemmas err_simps = deref_Some deref_None bind_err_Inr bind_err_Inl

lemma metricTemplate_threshold:
  "indicatorType s = threshold \<Longrightarrow> thresholdMetric s = Some tm \<Longrightarrow>
     metricTemplate s = Inr (join_nl
         [''thresholdMetric:'',
          ''  metricSource:'',
          ''    type: '' @ type (source tm),
          ''    spec:'',
          ''      query: >-'',
          ''        '' @ query (source tm),
          ''  operator: '' @ operator_text (operator tm),
          ''  value: '' @ num_text (value tm)])"
  by (simp add: metricTemplate_def err_simps del: join_nl.simps)

lemma metricTemplate_ratio:
  "indicatorType s = ratio \<Longrightarrow> ratioMetric s = Some rm \<Longrightarrow>
     metricTemplate s = Inr (join_nl
         [''ratioMetric:'',
          ''  '' @ optBlock ''good'' (good rm),
          ''  '' @ optBlock ''bad'' (bad rm),
          ''  total:'',
          ''    metricSource:'',
          ''      type: '' @ type (total rm),
          ''      spec:'',
          ''        query: >-'',
          ''          '' @ query (total rm)])"
  by (cases "good rm"; cases "bad rm")
     (simp_all add: metricTemplate_def err_simps optBlock_def del: join_nl.simps)

lemma metricTemplate_absent:
  "(indicatorType s = threshold \<longrightarrow> thresholdMetric s = None) \<Longrightarrow>
   (indicatorType s = ratio \<longrightarrow> ratioMetric s = None) \<Longrightarrow> metricTemplate s = Inr []"
  by (cases "indicatorType s") (simp_all add: metricTemplate_def)

lemma metricTemplate_total: "\<exists>t. metricTemplate s = Inr t"
proof (cases "indicatorType s")
  case ratio
  then show ?thesis
    using metricTemplate_ratio [of s] metricTemplate_absent [of s] by (cases "ratioMetric s") auto
next
  case threshold
  then show ?thesis
    using metricTemplate_threshold [of s] metricTemplate_absent [of s]
    by (cases "thresholdMetric s") auto
qed

lemma metricBlock_total: "\<exists>t. metricBlock s = Inr t"
  using metricTemplate_total [of s] by (auto simp: metricBlock_def err_simps)

lemma generateYaml_total: "\<exists>t. generateYaml s = Inr t"
  using metricBlock_total [of s] by (auto simp: generateYaml_def err_simps Let_def)

lemma kind_not_SLI: "(k \<noteq> SLI) = (k = SLO)"
  by (cases k) simp_all

lemma join_nl_snoc_join:
  "xs \<noteq> [] \<Longrightarrow> ys \<noteq> [] \<Longrightarrow> join_nl (xs @ [join_nl ys]) = join_nl (xs @ ys)"
  by (simp add: join_nl_append)

lemma generateYaml_SLI:
  "kind s = SLI \<Longrightarrow> metricBlock s = Inr mb \<Longrightarrow>
     generateYaml s = Inr (join_nl (sliHeader s @ [indentLines ''  '' mb]))"
  by (simp add: generateYaml_def err_simps sliHeader_def Let_def del: join_nl.simps)

lemma generateYaml_SLO_reference:
  "kind s = SLO \<Longrightarrow> indicatorMode s = reference \<Longrightarrow> indicatorRef s = Some r \<Longrightarrow> r \<noteq> [] \<Longrightarrow>
     generateYaml s = Inr (join_nl (sloHeader s @ [''  indicatorRef: '' @ r]))"
  using metricBlock_total [of s]
  by (auto simp add: generateYaml_def err_simps sloHeader_def Let_def simp del: join_nl.simps)

lemma generateYaml_SLO_inline:
  assumes "kind s = SLO" "\<not> rendersReference s" "metricBlock s = Inr mb"
  shows "generateYaml s = Inr (join_nl (sloHeader s @ [''  indicator:'', indentLines ''    '' mb]))"
proof -
  have e: "generateYaml s
          = Inr (join_nl (sloHeader s @ [join_nl [''  indicator:'', indentLines ''    '' mb]]))"
  proof (cases "indicatorMode s = reference")
    case True
    then have "js_not_str (indicatorRef s)"
      using assms(2) by (cases "indicatorRef s") (auto simp: rendersReference_def)
    then show ?thesis
      using assms(1,3) True
      by (simp add: generateYaml_def err_simps sloHeader_def Let_def del: join_nl.simps)
  next
    case False
    then show ?thesis
      using assms(1,3)
      by (simp add: generateYaml_def err_simps sloHeader_def Let_def del: join_nl.simps)
  qed
  have "join_nl (sloHeader s @ [join_nl [''  indicator:'', indentLines ''    '' mb]])
               = join_nl (sloHeader s @ [''  indicator:'', indentLines ''    '' mb])"
    by (rule join_nl_snoc_join) (simp_all add: sloHeader_def)
  with e show ?thesis by simp
qed

section \<open>The ratio block\<close>

lemma ratio_template_lines:
  assumes "indicatorType s = ratio" "ratioMetric s = Some rm"
  shows "metricTemplate s = Inr (join_nl (''ratioMetric:'' # slotLines ''good'' (good rm)
           @ slotLines ''bad'' (bad rm) @ entryLines ''total'' (total rm)))"
  using metricTemplate_ratio [OF assms]
  by (cases "good rm"; cases "bad rm")
     (simp_all add: optBlock_def slotLines_def entryLines_def)

lemma rb_join_insert_blank:
  assumes "xs \<noteq> []" "ys \<noteq> []" "blank w"
  shows "replaceBlankLines b (join_nl (xs @ w # ys)) = replaceBlankLines b (join_nl (xs @ ys))"
proof -
  have "join_nl (xs @ w # ys) = join_nl xs @ CHR 0x0A # w @ CHR 0x0A # join_nl ys"
    using assms(1,2) by (simp add: join_nl_append join_nl_Cons)
  moreover have "join_nl (xs @ ys) = join_nl xs @ CHR 0x0A # join_nl ys"
    using assms(1,2) by (simp add: join_nl_append)
  ultimately show ?thesis using rb_insert_blank [OF assms(3)] by simp
qed

lemma blank_indent: "blank ''  ''"
  by (simp add: blank_iff isWhiteSpace_def)

lemma entryLines_nonempty: "entryLines k x \<noteq> []"
  by (simp add: entryLines_def)

lemma rb_slots:
  "replaceBlankLines True (join_nl (''ratioMetric:'' # slotLines ''good'' g
           @ slotLines ''bad'' b @ entryLines ''total'' t))
   = replaceBlankLines True (join_nl (''ratioMetric:'' # optLines ''good'' g
           @ optLines ''bad'' b @ entryLines ''total'' t))"
proof -
  have bad: "replaceBlankLines True (join_nl (xs @ slotLines ''bad'' b @ entryLines ''total'' t))
      = replaceBlankLines True (join_nl (xs @ optLines ''bad'' b @ entryLines ''total'' t))"
    if "xs \<noteq> []" for xs
  proof (cases b)
    case None
    then show ?thesis
      using rb_join_insert_blank [OF that entryLines_nonempty blank_indent, of True "''total''" t]
      by (simp add: slotLines_def optLines_def)
  next
    case (Some x)
    then show ?thesis by (simp add: slotLines_def optLines_def)
  qed
  show ?thesis
  proof (cases g)
    case None
    have ne: "slotLines ''bad'' b @ entryLines ''total'' t \<noteq> []"
      by (simp add: entryLines_nonempty)
    have "replaceBlankLines True (join_nl ([''ratioMetric:''] @ ''  '' # (slotLines ''bad'' b @ entryLines ''total'' t)))
        = replaceBlankLines True (join_nl ([''ratioMetric:''] @ (slotLines ''bad'' b @ entryLines ''total'' t)))"
      using rb_join_insert_blank [OF _ ne blank_indent, of "[''ratioMetric:'']" True] by simp
    also have "\<dots> = replaceBlankLines True (join_nl ([''ratioMetric:''] @ optLines ''bad'' b @ entryLines ''total'' t))"
      by (rule bad) simp
    finally show ?thesis using None by (simp add: slotLines_def optLines_def)
  next
    case (Some x)
    have "replaceBlankLines True (join_nl ((''ratioMetric:'' # entryLines ''good'' x) @ slotLines ''bad'' b @ entryLines ''total'' t))
        = replaceBlankLines True (join_nl ((''ratioMetric:'' # entryLines ''good'' x) @ optLines ''bad'' b @ entryLines ''total'' t))"
      by (rule bad) simp
    then show ?thesis using Some by (simp add: slotLines_def optLines_def)
  qed
qed

lemma metricBlock_ratio:
  assumes "indicatorType s = ratio" "ratioMetric s = Some rm"
  shows "metricBlock s = Inr (replaceBlankLines True (join_nl (ratioLines rm)))"
  using ratio_template_lines [OF assms] rb_slots [of "good rm" "bad rm" "total rm"]
  by (simp add: metricBlock_def err_simps ratioLines_def)

lemma singleLine_iff: "singleLine t = (\<forall>c\<in>set t. \<not> isLineTerminator c)"
  by (simp add: singleLine_def list_all_iff)

lemma singleLine_no_nl: "singleLine t \<Longrightarrow> CHR 0x0A \<notin> set t"
  by (auto simp: singleLine_iff isLineTerminator_def)

lemma singleLine_append: "singleLine (a @ b) = (singleLine a \<and> singleLine b)"
  by (auto simp: singleLine_iff)

lemma blank_append: "blank (a @ b) = (blank a \<and> blank b)"
  by (auto simp: blank_iff)

lemma singleLine_Cons: "singleLine (c # t) = (\<not> isLineTerminator c \<and> singleLine t)"
  and singleLine_Nil: "singleLine []"
  by (simp_all add: singleLine_def)

lemma blank_Cons: "blank (c # t) = (isWhiteSpace c \<and> blank t)" and blank_Nil: "blank []"
  by (simp_all add: blank_iff)

lemmas line_eval = singleLine_Cons singleLine_Nil singleLine_append blank_Cons blank_Nil
  blank_append isWhiteSpace_def isLineTerminator_def

lemma entryLines_plain:
  assumes "plainSource x" "singleLine k"
  shows "\<forall>l\<in>set (entryLines k x). singleLine l \<and> \<not> blank l"
  using assms by (simp add: entryLines_def plainSource_def line_eval)

lemma optLines_plain:
  assumes "case src of None \<Rightarrow> True | Some x \<Rightarrow> plainSource x" "singleLine k"
  shows "\<forall>l\<in>set (optLines k src). singleLine l \<and> \<not> blank l"
proof (cases src)
  case None
  then show ?thesis by (simp add: optLines_def)
next
  case (Some x)
  then have "plainSource x" using assms(1) by simp
  then show ?thesis using Some entryLines_plain [OF _ assms(2)] by (simp add: optLines_def)
qed

lemma ratioLines_plain:
  assumes "plainRatio rm"
  shows "\<forall>l\<in>set (ratioLines rm). singleLine l \<and> \<not> blank l"
proof -
  have g: "\<forall>l\<in>set (optLines ''good'' (good rm)). singleLine l \<and> \<not> blank l"
    by (rule optLines_plain) (use assms in \<open>simp_all add: plainRatio_def line_eval\<close>)
  have b: "\<forall>l\<in>set (optLines ''bad'' (bad rm)). singleLine l \<and> \<not> blank l"
    by (rule optLines_plain) (use assms in \<open>simp_all add: plainRatio_def line_eval\<close>)
  have t: "\<forall>l\<in>set (entryLines ''total'' (total rm)). singleLine l \<and> \<not> blank l"
    by (rule entryLines_plain) (use assms in \<open>simp_all add: plainRatio_def line_eval\<close>)
  have r: "singleLine ''ratioMetric:'' \<and> \<not> blank ''ratioMetric:''"
    by (simp add: line_eval)
  from g b t r show ?thesis unfolding ratioLines_def by (simp add: ball_Un)
qed

lemma ratioLines_nonempty: "ratioLines rm \<noteq> []"
  by (simp add: ratioLines_def)

lemma metricBlock_ratio_plain:
  assumes "indicatorType s = ratio" "ratioMetric s = Some rm" "plainRatio rm"
  shows "metricBlock s = Inr (join_nl (ratioLines rm))"
proof -
  have p: "\<forall>l\<in>set (ratioLines rm). singleLine l \<and> \<not> blank l"
    using assms(3) by (rule ratioLines_plain)
  have "replaceBlankLines True (join_nl (ratioLines rm)) = join_nl (ratioLines rm)"
  proof (rule rb_lines_nonblank)
    show "ratioLines rm \<noteq> []" by (rule ratioLines_nonempty)
    show "\<forall>l\<in>set (ratioLines rm). \<forall>c\<in>set l. \<not> isLineTerminator c"
      using p by (simp add: singleLine_iff)
    show "\<forall>l\<in>set (butlast (ratioLines rm)). \<not> blank l"
      using p by (auto dest: in_set_butlastD)
  qed
  then show ?thesis using metricBlock_ratio [OF assms(1,2)] by simp
qed

text \<open>Sources on one line each: the block is the lines of the template that are not blank.\<close>

lemma entryLines_single:
  assumes "singleSource x" "singleLine k"
  shows "\<forall>l\<in>set (entryLines k x). singleLine l"
  using assms by (simp add: entryLines_def singleSource_def line_eval)

lemma optLines_single:
  assumes "case src of None \<Rightarrow> True | Some x \<Rightarrow> singleSource x" "singleLine k"
  shows "\<forall>l\<in>set (optLines k src). singleLine l"
proof (cases src)
  case None
  then show ?thesis by (simp add: optLines_def)
next
  case (Some x)
  then have "singleSource x" using assms(1) by simp
  then show ?thesis using Some entryLines_single [OF _ assms(2)] by (simp add: optLines_def)
qed

lemma ratioLines_single:
  assumes "singleRatio rm"
  shows "\<forall>l\<in>set (ratioLines rm). singleLine l"
proof -
  have g: "\<forall>l\<in>set (optLines ''good'' (good rm)). singleLine l"
    by (rule optLines_single) (use assms in \<open>simp_all add: singleRatio_def line_eval\<close>)
  have b: "\<forall>l\<in>set (optLines ''bad'' (bad rm)). singleLine l"
    by (rule optLines_single) (use assms in \<open>simp_all add: singleRatio_def line_eval\<close>)
  have t: "\<forall>l\<in>set (entryLines ''total'' (total rm)). singleLine l"
    by (rule entryLines_single) (use assms in \<open>simp_all add: singleRatio_def line_eval\<close>)
  have r: "singleLine ''ratioMetric:''"
    by (simp add: line_eval)
  from g b t r show ?thesis unfolding ratioLines_def by (simp add: ball_Un)
qed

lemma keptLines_nonempty: "keptLines ls \<noteq> []"
  by (simp add: keptLines_def)

lemma keptLines_subset: "ls \<noteq> [] \<Longrightarrow> set (keptLines ls) \<subseteq> set ls"
  by (auto simp add: keptLines_def dest: in_set_butlastD)

lemma metricBlock_ratio_single:
  assumes "indicatorType s = ratio" "ratioMetric s = Some rm" "singleRatio rm"
  shows "metricBlock s = Inr (join_nl (keptLines (ratioLines rm)))"
    and "split_nl (join_nl (keptLines (ratioLines rm))) = keptLines (ratioLines rm)"
proof -
  have p: "\<forall>l\<in>set (ratioLines rm). singleLine l"
    using assms(3) by (rule ratioLines_single)
  have "replaceBlankLines True (join_nl (ratioLines rm)) = join_nl (keptLines (ratioLines rm))"
    unfolding keptLines_def
  proof (rule rb_lines)
    show "ratioLines rm \<noteq> []" by (rule ratioLines_nonempty)
    show "\<forall>l\<in>set (ratioLines rm). \<forall>c\<in>set l. \<not> isLineTerminator c"
      using p by (simp add: singleLine_iff)
  qed
  then show "metricBlock s = Inr (join_nl (keptLines (ratioLines rm)))"
    using metricBlock_ratio [OF assms(1,2)] by simp
  have "\<forall>l\<in>set (keptLines (ratioLines rm)). CHR 0x0A \<notin> set l"
    using p keptLines_subset [OF ratioLines_nonempty, of rm] singleLine_no_nl by blast
  with keptLines_nonempty
  show "split_nl (join_nl (keptLines (ratioLines rm))) = keptLines (ratioLines rm)"
    by (rule split_nl_join_single)
qed

lemma kept_ratioLines:
  "keptLines (ratioLines rm) =
     ''ratioMetric:'' # filter (\<lambda>l. \<not> blank l) (optLines ''good'' (good rm))
       @ filter (\<lambda>l. \<not> blank l) (optLines ''bad'' (bad rm))
       @ [''  total:'', ''    metricSource:'', ''      type: '' @ type (total rm),
          ''      spec:'', ''        query: >-'', ''          '' @ query (total rm)]"
  by (simp add: keptLines_def ratioLines_def entryLines_def butlast_append line_eval)

lemma kept_entry:
  "filter (\<lambda>l. \<not> blank l) (entryLines k x) =
     [''  '' @ k @ '':'', ''    metricSource:'', ''      type: '' @ type x,
          ''      spec:'', ''        query: >-''] @ (if blank (query x) then [] else [''          '' @ query x])"
  by (simp add: entryLines_def line_eval)

lemma keys_of_kept:
  "filter entryKey (keptLines (ratioLines rm)) =
     (if good rm = None then [] else [''  good:''])
       @ (if bad rm = None then [] else [''  bad:'']) @ [''  total:'']"
  by (cases "good rm"; cases "bad rm")
     (simp_all add: kept_ratioLines optLines_def kept_entry entryKey_def)

lemma key_in_kept:
  assumes "entryKey k"
  shows "(k \<in> set (keptLines (ratioLines rm)))
           = (k \<in> set ((if good rm = None then [] else [''  good:''])
                @ (if bad rm = None then [] else [''  bad:'']) @ [''  total:'']))"
proof -
  have "(k \<in> set (keptLines (ratioLines rm)))
          = (k \<in> set (filter entryKey (keptLines (ratioLines rm))))"
    using assms by simp
  then show ?thesis unfolding keys_of_kept .
qed

lemma kept_first_two:
  "take 2 (keptLines (ratioLines rm)) =
     [''ratioMetric:'', if good rm \<noteq> None then ''  good:''
                        else if bad rm \<noteq> None then ''  bad:'' else ''  total:'']"
  by (cases "good rm"; cases "bad rm")
     (simp_all add: kept_ratioLines optLines_def kept_entry)

lemma kept_butlast: "\<forall>l\<in>set (butlast (keptLines ls)). \<not> blank l"
  by (simp add: keptLines_def)

lemma kept_last: "last (keptLines (ratioLines rm)) = ''          '' @ query (total rm)"
  by (simp add: keptLines_def ratioLines_def entryLines_def)

lemma kept_plain: "plainRatio rm \<Longrightarrow> keptLines (ratioLines rm) = ratioLines rm"
proof -
  assume "plainRatio rm"
  then have "\<forall>l\<in>set (butlast (ratioLines rm)). \<not> blank l"
    using ratioLines_plain [of rm] by (auto dest: in_set_butlastD)
  then have "filter (\<lambda>l. \<not> blank l) (butlast (ratioLines rm)) = butlast (ratioLines rm)"
    by simp
  then show ?thesis using ratioLines_nonempty [of rm] by (simp add: keptLines_def)
qed

lemma document_of_block:
  assumes "metricBlock s = Inr t"
  shows "kind s = SLI \<Longrightarrow> generateYaml s
           = Inr (join_nl (sliHeader s @ map (\<lambda>l. ''  '' @ l) (split_nl t)))"
    and "kind s = SLO \<Longrightarrow> \<not> rendersReference s \<Longrightarrow> generateYaml s
           = Inr (join_nl (sloHeader s @ ''  indicator:''
                    # map (\<lambda>l. ''    '' @ l) (split_nl t)))"
proof -
  have ne: "map (\<lambda>l. pad @ l) (split_nl t) \<noteq> []" for pad :: string
    by (simp add: split_nl_nonempty)
  {
    assume "kind s = SLI"
    then have "generateYaml s = Inr (join_nl (sliHeader s
                 @ [join_nl (map (\<lambda>l. ''  '' @ l) (split_nl t))]))"
      using assms generateYaml_SLI [of s t] by (simp add: indentLines_def)
    moreover have "join_nl (sliHeader s @ [join_nl (map (\<lambda>l. ''  '' @ l) (split_nl t))])
                     = join_nl (sliHeader s @ map (\<lambda>l. ''  '' @ l) (split_nl t))"
      by (rule join_nl_snoc_join) (simp_all add: sliHeader_def split_nl_nonempty)
    ultimately show "generateYaml s
           = Inr (join_nl (sliHeader s @ map (\<lambda>l. ''  '' @ l) (split_nl t)))"
      by simp
  }
  {
    assume "kind s = SLO" "\<not> rendersReference s"
    then have "generateYaml s = Inr (join_nl ((sloHeader s @ [''  indicator:''])
                 @ [join_nl (map (\<lambda>l. ''    '' @ l) (split_nl t))]))"
      using assms generateYaml_SLO_inline [of s t] by (simp add: indentLines_def)
    moreover have "join_nl ((sloHeader s @ [''  indicator:''])
                      @ [join_nl (map (\<lambda>l. ''    '' @ l) (split_nl t))])
                 = join_nl ((sloHeader s @ [''  indicator:''])
                      @ map (\<lambda>l. ''    '' @ l) (split_nl t))"
      by (rule join_nl_snoc_join) (simp_all add: split_nl_nonempty)
    ultimately show "generateYaml s
           = Inr (join_nl (sloHeader s @ ''  indicator:''
                    # map (\<lambda>l. ''    '' @ l) (split_nl t)))"
      by simp
  }
qed


section \<open>Interpolated values stay on their line\<close>

lemma digits_lt_10: "d \<in> set (digits_of n) \<Longrightarrow> d < 10"
proof (induction n arbitrary: d rule: digits_of.induct)
  case (1 n)
  show ?case
  proof (cases "n < 10")
    case True
    then show ?thesis using "1.prems" by (simp add: digits_of.simps [of n])
  next
    case False
    then have "d \<in> set (digits_of (n div 10)) \<or> d = n mod 10"
      using "1.prems" by (auto simp add: digits_of.simps [of n])
    then show ?thesis using "1.IH" False by auto
  qed
qed

lemma digit_char_plain: "d < 10 \<Longrightarrow> \<not> isLineTerminator (digit_char d)"
proof -
  assume "d < 10"
  then have "d = 0 \<or> d = 1 \<or> d = 2 \<or> d = 3 \<or> d = 4 \<or> d = 5 \<or> d = 6 \<or> d = 7 \<or> d = 8 \<or> d = 9"
    by arith
  then show ?thesis
    by (elim disjE) (simp_all add: digit_char_def isLineTerminator_def)
qed

lemma digit_text_single: "\<forall>d\<in>set ds. d < 10 \<Longrightarrow> singleLine (map digit_char ds)"
  by (induction ds) (simp_all add: singleLine_Cons singleLine_Nil digit_char_plain)

lemma singleLine_take: "singleLine t \<Longrightarrow> singleLine (take n t)"
  and singleLine_drop: "singleLine t \<Longrightarrow> singleLine (drop n t)"
  by (auto simp: singleLine_iff dest: in_set_takeD in_set_dropD)

lemma singleLine_replicate: "\<not> isLineTerminator c \<Longrightarrow> singleLine (replicate n c)"
  by (simp add: singleLine_iff)

lemma singleLine_appendI: "singleLine a \<Longrightarrow> singleLine b \<Longrightarrow> singleLine (a @ b)"
  by (simp add: singleLine_append)

lemma singleLine_ifI: "singleLine a \<Longrightarrow> singleLine b \<Longrightarrow> singleLine (if c then a else b)"
  by simp

lemma nat_text_single: "singleLine (nat_text n)"
  unfolding nat_text_def using digits_lt_10 by (intro digit_text_single) blast

lemma dec_text_single: "singleLine (dec_text m e)"
proof -
  have s: "singleLine (map digit_char (take k (digits_of n)))" for k n
    using digits_lt_10 [of _ n] by (intro digit_text_single) (auto dest: in_set_takeD)
  have z: "singleLine (replicate n CHR ''0'')" for n
    by (rule singleLine_replicate) (simp add: isLineTerminator_def)
  have l: "singleLine ''0''" "singleLine ''-''" "singleLine []" "singleLine ''.''"
    "singleLine ''0.''" "singleLine ''e''" "singleLine ''+''"
    by (simp_all add: singleLine_Cons singleLine_Nil isLineTerminator_def)
  show ?thesis
    unfolding dec_text_def Let_def
    by (intro singleLine_ifI singleLine_appendI s z l singleLine_take singleLine_drop
        nat_text_single)
qed

lemma num_text_single: "singleLine (num_text x)"
  by (cases x) (simp_all add: dec_text_single singleLine_Cons singleLine_Nil isLineTerminator_def)

lemma operator_text_single: "singleLine (operator_text x)"
  by (cases x) (simp_all add: line_eval)




section \<open>The keys of the SLO header\<close>




section \<open>Lines of the indicator body that survive into the document\<close>










section \<open>Properties of the rendered document\<close>

text \<open>
  \<^bold>\<open>C5\<close>, as stated, fails: the types and queries are interpolated as they are, so a bad
  query (or type) of two lines whose second line is \<open>  good:\<close> puts a line \<open>good:\<close> into
  the block and the document although the good entry is absent, and behind \<open>bad:\<close>.
\<close>

theorem ratio_line_break_counterexample:
  "indicatorType twoLineQueryState = ratio
   \<and> ratioMetric twoLineQueryState = Some twoLineQueryRatio
   \<and> good twoLineQueryRatio = None
   \<and> (case metricBlock twoLineQueryState of
         Inl e \<Rightarrow> False
       | Inr t \<Rightarrow> ''  good:'' \<in> set (split_nl t)
                 \<and> filter entryKey (split_nl t) = [''  bad:'', ''  good:'', ''  total:''])
   \<and> (case generateYaml twoLineQueryState of
         Inl e \<Rightarrow> False
       | Inr t \<Rightarrow> ''    good:'' \<in> set (split_nl t))
   \<and> indicatorType twoLineTypeState = ratio
   \<and> ratioMetric twoLineTypeState = Some twoLineTypeRatio
   \<and> good twoLineTypeRatio = None
   \<and> (case metricBlock twoLineTypeState of
         Inl e \<Rightarrow> False
       | Inr t \<Rightarrow> ''  good:'' \<in> set (split_nl t))
   \<and> (case generateYaml twoLineTypeState of
         Inl e \<Rightarrow> False
       | Inr t \<Rightarrow> ''    good:'' \<in> set (split_nl t))"
  by code_simp

text \<open>
  \<^bold>\<open>C5\<close>, amended. For every configuration of the ratio type with a ratio metric whose
  source types and queries are each on one line, the lines of the indicator body are the
  lines of \<open>ratioLines\<close> that are not blank, and its last line as it is: the line
  \<open>ratioMetric:\<close>, the lines of the good entry when it is present, those of the bad entry
  when it is present, and those of the total entry. An absent entry has no line there: of
  the lines \<open>good:\<close>, \<open>bad:\<close> and \<open>total:\<close> the body has those of the present entries, once
  each and in this order, \<open>total:\<close> always; the line behind \<open>ratioMetric:\<close> is the key of
  the first present entry; no line but the last, which is the line of the total query, can
  be blank. When moreover no query is blank the body is exactly the lines of \<open>ratioLines\<close>.
  The document is the header followed by the lines of the body, indented by two spaces
  (SLI) or by four under \<open>indicator:\<close> (SLO), the empty lines having gone before the
  indentation. The template with only a bad entry renders as shown.
\<close>

theorem ratio_block_of_single_lines:
  "indicatorType s = ratio \<Longrightarrow> ratioMetric s = Some rm \<Longrightarrow> singleRatio rm \<Longrightarrow>
     (\<exists>t. metricBlock s = Inr t
        \<and> split_nl t = filter (\<lambda>l. \<not> blank l) (butlast (ratioLines rm)) @ [last (ratioLines rm)]
        \<and> filter entryKey (split_nl t)
            = (if good rm = None then [] else [''  good:''])
                @ (if bad rm = None then [] else [''  bad:'']) @ [''  total:'']
        \<and> (''  good:'' \<in> set (split_nl t)) = (good rm \<noteq> None)
        \<and> (''  bad:'' \<in> set (split_nl t)) = (bad rm \<noteq> None)
        \<and> ''  total:'' \<in> set (split_nl t)
        \<and> take 2 (split_nl t)
            = [''ratioMetric:'', if good rm \<noteq> None then ''  good:''
                                 else if bad rm \<noteq> None then ''  bad:'' else ''  total:'']
        \<and> (\<forall>l\<in>set (butlast (split_nl t)). \<not> blank l)
        \<and> last (split_nl t) = ''          '' @ query (total rm)
        \<and> (plainRatio rm \<longrightarrow> split_nl t = ratioLines rm)
        \<and> (kind s = SLI \<longrightarrow> generateYaml s
              = Inr (join_nl (sliHeader s @ map (\<lambda>l. ''  '' @ l) (split_nl t))))
        \<and> (kind s = SLO \<and> \<not> rendersReference s \<longrightarrow> generateYaml s
              = Inr (join_nl (sloHeader s @ ''  indicator:''
                       # map (\<lambda>l. ''    '' @ l) (split_nl t)))))
   \<and> generateYaml template_standaloneSli = Inr
        ''apiVersion: openslo/v1\<newline>kind: SLI\<newline>metadata:\<newline>  name: shared-error-sli\<newline>  displayName: Shared Error SLI\<newline>spec:\<newline>  description: Standard error rate SLI used by multiple services\<newline>  ratioMetric:\<newline>    bad:\<newline>      metricSource:\<newline>        type: prometheus\<newline>        spec:\<newline>          query: >-\<newline>            sum(rate(errors_total[5m]))\<newline>    total:\<newline>      metricSource:\<newline>        type: prometheus\<newline>        spec:\<newline>          query: >-\<newline>            sum(rate(requests_total[5m]))''"
proof
  assume r: "indicatorType s = ratio" "ratioMetric s = Some rm" and p: "singleRatio rm"
  define t where "t = join_nl (keptLines (ratioLines rm))"
  have mb: "metricBlock s = Inr t"
    unfolding t_def using r p by (rule metricBlock_ratio_single(1))
  have sp: "split_nl t = keptLines (ratioLines rm)"
    unfolding t_def using r p by (rule metricBlock_ratio_single(2))
  have 1: "split_nl t
             = filter (\<lambda>l. \<not> blank l) (butlast (ratioLines rm)) @ [last (ratioLines rm)]"
    unfolding sp by (rule keptLines_def)
  have 2: "filter entryKey (split_nl t)
            = (if good rm = None then [] else [''  good:''])
                @ (if bad rm = None then [] else [''  bad:'']) @ [''  total:'']"
    unfolding sp by (rule keys_of_kept)
  have 3: "(''  good:'' \<in> set (split_nl t)) = (good rm \<noteq> None)"
    unfolding sp by (subst key_in_kept) (simp_all add: entryKey_def)
  have 4: "(''  bad:'' \<in> set (split_nl t)) = (bad rm \<noteq> None)"
    unfolding sp by (subst key_in_kept) (simp_all add: entryKey_def)
  have 5: "''  total:'' \<in> set (split_nl t)"
    unfolding sp by (subst key_in_kept) (simp_all add: entryKey_def)
  have 6: "take 2 (split_nl t)
            = [''ratioMetric:'', if good rm \<noteq> None then ''  good:''
                                 else if bad rm \<noteq> None then ''  bad:'' else ''  total:'']"
    unfolding sp by (rule kept_first_two)
  have 7: "\<forall>l\<in>set (butlast (split_nl t)). \<not> blank l"
    unfolding sp by (rule kept_butlast)
  have 8: "last (split_nl t) = ''          '' @ query (total rm)"
    unfolding sp by (rule kept_last)
  have 9: "plainRatio rm \<longrightarrow> split_nl t = ratioLines rm"
    unfolding sp using kept_plain by blast
  have 10: "kind s = SLI \<longrightarrow> generateYaml s
              = Inr (join_nl (sliHeader s @ map (\<lambda>l. ''  '' @ l) (split_nl t)))"
    using document_of_block(1) [OF mb] by blast
  have 11: "kind s = SLO \<and> \<not> rendersReference s \<longrightarrow> generateYaml s
              = Inr (join_nl (sloHeader s @ ''  indicator:''
                       # map (\<lambda>l. ''    '' @ l) (split_nl t)))"
    using document_of_block(2) [OF mb] by blast
  from mb 1 2 3 4 5 6 7 8 9 10 11
  show "\<exists>t. metricBlock s = Inr t
        \<and> split_nl t = filter (\<lambda>l. \<not> blank l) (butlast (ratioLines rm)) @ [last (ratioLines rm)]
        \<and> filter entryKey (split_nl t)
            = (if good rm = None then [] else [''  good:''])
                @ (if bad rm = None then [] else [''  bad:'']) @ [''  total:'']
        \<and> (''  good:'' \<in> set (split_nl t)) = (good rm \<noteq> None)
        \<and> (''  bad:'' \<in> set (split_nl t)) = (bad rm \<noteq> None)
        \<and> ''  total:'' \<in> set (split_nl t)
        \<and> take 2 (split_nl t)
            = [''ratioMetric:'', if good rm \<noteq> None then ''  good:''
                                 else if bad rm \<noteq> None then ''  bad:'' else ''  total:'']
        \<and> (\<forall>l\<in>set (butlast (split_nl t)). \<not> blank l)
        \<and> last (split_nl t) = ''          '' @ query (total rm)
        \<and> (plainRatio rm \<longrightarrow> split_nl t = ratioLines rm)
        \<and> (kind s = SLI \<longrightarrow> generateYaml s
              = Inr (join_nl (sliHeader s @ map (\<lambda>l. ''  '' @ l) (split_nl t))))
        \<and> (kind s = SLO \<and> \<not> rendersReference s \<longrightarrow> generateYaml s
              = Inr (join_nl (sloHeader s @ ''  indicator:''
                       # map (\<lambda>l. ''    '' @ l) (split_nl t))))"
    by (intro exI [of _ t] conjI)
next
  show "generateYaml template_standaloneSli = Inr
        ''apiVersion: openslo/v1\<newline>kind: SLI\<newline>metadata:\<newline>  name: shared-error-sli\<newline>  displayName: Shared Error SLI\<newline>spec:\<newline>  description: Standard error rate SLI used by multiple services\<newline>  ratioMetric:\<newline>    bad:\<newline>      metricSource:\<newline>        type: prometheus\<newline>        spec:\<newline>          query: >-\<newline>            sum(rate(errors_total[5m]))\<newline>    total:\<newline>      metricSource:\<newline>        type: prometheus\<newline>        spec:\<newline>          query: >-\<newline>            sum(rate(requests_total[5m]))''"
    by code_simp
qed

theorem ratio_block_of_single_lines_witness:
  "indicatorType template_standaloneSli = ratio
   \<and> ratioMetric template_standaloneSli = Some standaloneSliRatio
   \<and> singleRatio standaloneSliRatio
   \<and> kind template_standaloneSli = SLI
   \<and> good standaloneSliRatio = None
   \<and> (\<exists>t. metricBlock template_standaloneSli = Inr t
        \<and> filter entryKey (split_nl t) = [''  bad:'', ''  total:'']
        \<and> ''  good:'' \<notin> set (split_nl t)
        \<and> ''  bad:'' \<in> set (split_nl t)
        \<and> take 2 (split_nl t) = [''ratioMetric:'', ''  bad:'']
        \<and> generateYaml template_standaloneSli = Inr (join_nl (sliHeader template_standaloneSli
             @ map (\<lambda>l. ''  '' @ l) (split_nl t))))"
proof -
  have a: "indicatorType template_standaloneSli = ratio"
    "ratioMetric template_standaloneSli = Some standaloneSliRatio"
    "kind template_standaloneSli = SLI"
    by (simp_all add: template_standaloneSli_def)
  have p: "singleRatio standaloneSliRatio"
    by (simp add: singleRatio_def standaloneSliRatio_def singleSource_def line_eval)
  have g: "good standaloneSliRatio = None" "bad standaloneSliRatio \<noteq> None"
    by (simp_all add: standaloneSliRatio_def)
  from ratio_block_of_single_lines [OF a(1,2) p]
  obtain t where t: "metricBlock template_standaloneSli = Inr t"
    "filter entryKey (split_nl t)
       = (if good standaloneSliRatio = None then [] else [''  good:''])
           @ (if bad standaloneSliRatio = None then [] else [''  bad:'']) @ [''  total:'']"
    "(''  good:'' \<in> set (split_nl t)) = (good standaloneSliRatio \<noteq> None)"
    "(''  bad:'' \<in> set (split_nl t)) = (bad standaloneSliRatio \<noteq> None)"
    "take 2 (split_nl t)
       = [''ratioMetric:'', if good standaloneSliRatio \<noteq> None then ''  good:''
            else if bad standaloneSliRatio \<noteq> None then ''  bad:'' else ''  total:'']"
    "kind template_standaloneSli = SLI \<longrightarrow> generateYaml template_standaloneSli
       = Inr (join_nl (sliHeader template_standaloneSli @ map (\<lambda>l. ''  '' @ l) (split_nl t)))"
    by blast
  have 1: "filter entryKey (split_nl t) = [''  bad:'', ''  total:'']"
    using t(2) g by simp
  have 2: "''  good:'' \<notin> set (split_nl t)" using t(3) g by simp
  have 3: "''  bad:'' \<in> set (split_nl t)" using t(4) g by simp
  have 4: "take 2 (split_nl t) = [''ratioMetric:'', ''  bad:'']" using t(5) g by simp
  have 5: "generateYaml template_standaloneSli = Inr (join_nl (sliHeader template_standaloneSli
             @ map (\<lambda>l. ''  '' @ l) (split_nl t)))"
    using t(6) a(3) by blast
  from t(1) 1 2 3 4 5
  have "\<exists>t. metricBlock template_standaloneSli = Inr t
        \<and> filter entryKey (split_nl t) = [''  bad:'', ''  total:'']
        \<and> ''  good:'' \<notin> set (split_nl t)
        \<and> ''  bad:'' \<in> set (split_nl t)
        \<and> take 2 (split_nl t) = [''ratioMetric:'', ''  bad:'']
        \<and> generateYaml template_standaloneSli = Inr (join_nl (sliHeader template_standaloneSli
             @ map (\<lambda>l. ''  '' @ l) (split_nl t)))"
    by (intro exI [of _ t] conjI)
  with a p g(1) show ?thesis by (intro conjI)
qed

lemma metricBlock_absent:
  "(indicatorType s = threshold \<and> thresholdMetric s = None)
     \<or> (indicatorType s = ratio \<and> ratioMetric s = None) \<Longrightarrow> metricBlock s = Inr []"
proof -
  assume "(indicatorType s = threshold \<and> thresholdMetric s = None)
     \<or> (indicatorType s = ratio \<and> ratioMetric s = None)"
  then have "metricTemplate s = Inr []" by (intro metricTemplate_absent) auto
  then show ?thesis by (simp add: metricBlock_def err_simps rb_Nil)
qed

text \<open>
  \<^bold>\<open>C9.\<close> The renderer returns a text for every configuration: each read of a property of
  an optional metric object stands behind a test that the object is there, so no
  \<open>TypeError\<close> is raised. The validator reads optional objects through optional chaining
  only, which cannot raise; it returns a mapping whose keys are among the ten field keys,
  and where the applicable data is absent it reports a message: for an absent threshold
  metric \<open>thresholdQuery\<close> and \<open>thresholdValue\<close>, for an absent ratio metric \<open>ratioTotal\<close> and
  \<open>ratioGoodBad\<close>, for an absent reference name in reference mode \<open>indicatorRef\<close>. With the
  metric object absent the indicator body is the empty text.
\<close>

theorem validate_render_total:
  "(\<exists>t. generateYaml s = Inr t)
   \<and> dom (validateState s) \<subseteq> range ruleKey
   \<and> (metricsInPlace s \<and> indicatorType s = threshold \<and> thresholdMetric s = None \<longrightarrow>
        validateState s ''thresholdQuery'' = Some ''Query is required''
        \<and> validateState s ''thresholdValue'' = Some ''Threshold value is required'')
   \<and> (metricsInPlace s \<and> indicatorType s = ratio \<and> ratioMetric s = None \<longrightarrow>
        validateState s ''ratioTotal'' = Some ''Total query is required''
        \<and> validateState s ''ratioGoodBad'' = Some ''Either Good or Bad metric query is required'')
   \<and> (kind s = SLO \<and> indicatorMode s = reference \<and> indicatorRef s = None \<longrightarrow>
        validateState s ''indicatorRef'' = Some ''SLI Reference name is required'')
   \<and> ((indicatorType s = threshold \<and> thresholdMetric s = None)
        \<or> (indicatorType s = ratio \<and> ratioMetric s = None) \<longrightarrow> metricBlock s = Inr [])"
proof -
  have 1: "\<exists>t. generateYaml s = Inr t" by (rule generateYaml_total)
  have 2: "dom (validateState s) \<subseteq> range ruleKey" unfolding validate_dom by blast
  have 3: "metricsInPlace s \<and> indicatorType s = threshold \<and> thresholdMetric s = None \<longrightarrow>
        validateState s ''thresholdQuery'' = Some ''Query is required''
        \<and> validateState s ''thresholdValue'' = Some ''Threshold value is required''"
    by (simp add: validate_apply)
  have 4: "metricsInPlace s \<and> indicatorType s = ratio \<and> ratioMetric s = None \<longrightarrow>
        validateState s ''ratioTotal'' = Some ''Total query is required''
        \<and> validateState s ''ratioGoodBad'' = Some ''Either Good or Bad metric query is required''"
    by (simp add: validate_apply)
  have 5: "kind s = SLO \<and> indicatorMode s = reference \<and> indicatorRef s = None \<longrightarrow>
        validateState s ''indicatorRef'' = Some ''SLI Reference name is required''"
    by (simp add: validate_apply)
  have 6: "(indicatorType s = threshold \<and> thresholdMetric s = None)
        \<or> (indicatorType s = ratio \<and> ratioMetric s = None) \<longrightarrow> metricBlock s = Inr []"
    using metricBlock_absent by blast
  from 1 2 3 4 5 6 show ?thesis by (intro conjI)
qed

theorem validate_render_total_witness:
  "metricsInPlace (DEFAULT_SLO_STATE\<lparr>thresholdMetric := None\<rparr>)
   \<and> indicatorType (DEFAULT_SLO_STATE\<lparr>thresholdMetric := None\<rparr>) = threshold
   \<and> thresholdMetric (DEFAULT_SLO_STATE\<lparr>thresholdMetric := None\<rparr>) = None
   \<and> validateState (DEFAULT_SLO_STATE\<lparr>thresholdMetric := None\<rparr>) ''thresholdQuery''
        = Some ''Query is required''
   \<and> validateState (DEFAULT_SLO_STATE\<lparr>thresholdMetric := None\<rparr>) ''thresholdValue''
        = Some ''Threshold value is required''
   \<and> metricBlock (DEFAULT_SLO_STATE\<lparr>thresholdMetric := None\<rparr>) = Inr []
   \<and> generateYaml (DEFAULT_SLO_STATE\<lparr>thresholdMetric := None\<rparr>) = Inr
        ''apiVersion: openslo/v1\<newline>kind: SLO\<newline>metadata:\<newline>  name: my-service-availability\<newline>  displayName: My Service Availability\<newline>spec:\<newline>  description: Availability SLO for the core API service\<newline>  service: core-api\<newline>  budgetingMethod: occurrences\<newline>  objectives:\<newline>    - displayName: My Service Availability\<newline>      target: 0.999\<newline>      timeWindow:\<newline>        - rolling: true\<newline>          count: 28\<newline>          unit: d\<newline>  indicator:\<newline>    ''"
proof -
  let ?s = "DEFAULT_SLO_STATE\<lparr>thresholdMetric := None\<rparr>"
  have a: "metricsInPlace ?s" "indicatorType ?s = threshold" "thresholdMetric ?s = None"
    by (simp_all add: DEFAULT_SLO_STATE_def metricsInPlace_def)
  note t = validate_render_total [of ?s]
  from t a have v: "validateState ?s ''thresholdQuery'' = Some ''Query is required''"
    "validateState ?s ''thresholdValue'' = Some ''Threshold value is required''"
    by blast+
  from t a have m: "metricBlock ?s = Inr []" by blast
  have y: "generateYaml ?s = Inr
        ''apiVersion: openslo/v1\<newline>kind: SLO\<newline>metadata:\<newline>  name: my-service-availability\<newline>  displayName: My Service Availability\<newline>spec:\<newline>  description: Availability SLO for the core API service\<newline>  service: core-api\<newline>  budgetingMethod: occurrences\<newline>  objectives:\<newline>    - displayName: My Service Availability\<newline>      target: 0.999\<newline>      timeWindow:\<newline>        - rolling: true\<newline>          count: 28\<newline>          unit: d\<newline>  indicator:\<newline>    ''"
    by code_simp
  from a v m y show ?thesis by (intro conjI)
qed

lemma nan_line: "kind s = SLO \<Longrightarrow> target s = NaN \<Longrightarrow>
   \<exists>t. generateYaml s = Inr t \<and> ''      target: NaN'' \<in> set (split_nl t)"
proof -
  assume k: "kind s = SLO" and n: "target s = NaN"
  have l: "''      target: NaN'' \<in> set (sloHeader s @ x)" for x
    using n by (simp add: sloHeader_def)
  have nl: "CHR 0x0A \<notin> set ''      target: NaN''" by simp
  obtain mb where mb: "metricBlock s = Inr mb" using metricBlock_total by blast
  show ?thesis
  proof (cases "rendersReference s")
    case True
    then obtain r where "indicatorMode s = reference" "indicatorRef s = Some r" "r \<noteq> []"
      by (cases "indicatorRef s") (auto simp: rendersReference_def)
    then have "generateYaml s = Inr (join_nl (sloHeader s @ [''  indicatorRef: '' @ r]))"
      using k by (intro generateYaml_SLO_reference)
    then show ?thesis using line_in_join [OF l nl] by blast
  next
    case False
    then have "generateYaml s
       = Inr (join_nl (sloHeader s @ [''  indicator:'', indentLines ''    '' mb]))"
      using k mb by (intro generateYaml_SLO_inline)
    then show ?thesis using line_in_join [OF l nl] by blast
  qed
qed

text \<open>
  \<^bold>\<open>C2\<close> (what the code does; the claim asks for the opposite). For a configuration of kind
  SLO whose target is \<open>NaN\<close>, the validator reports nothing under the key \<open>target\<close>, and the
  rendered document has the line \<open>target: NaN\<close> in its objectives block. At the default
  configuration with a \<open>NaN\<close> target the validator returns the empty mapping.
\<close>

theorem nan_target_passes_and_is_rendered:
  "kind s = SLO \<Longrightarrow> target s = NaN \<Longrightarrow>
     validateState s ''target'' = None
   \<and> (\<exists>t. generateYaml s = Inr t \<and> ''      target: NaN'' \<in> set (split_nl t))"
proof -
  assume k: "kind s = SLO" and n: "target s = NaN"
  have "validateState s ''target'' = None" using k n by (simp add: validate_apply)
  with nan_line [OF k n] show ?thesis by simp
qed

theorem nan_target_passes_and_is_rendered_witness:
  "kind nanTargetState = SLO \<and> target nanTargetState = NaN
   \<and> validateState nanTargetState ''target'' = None
   \<and> validateState nanTargetState = Map.empty
   \<and> (\<exists>t. generateYaml nanTargetState = Inr t \<and> ''      target: NaN'' \<in> set (split_nl t))"
proof -
  have a: "kind nanTargetState = SLO" "target nanTargetState = NaN"
    by (simp_all add: nanTargetState_def DEFAULT_SLO_STATE_def)
  have e: "validateState nanTargetState = Map.empty" by (rule nanTargetState_empty)
  from nan_target_passes_and_is_rendered [OF a] a e show ?thesis by simp
qed

lemma metricBlock_threshold_plain:
  assumes "indicatorType s = threshold" "thresholdMetric s = Some tm" "plainSource (source tm)"
  shows "metricBlock s = Inr (join_nl (thresholdLines tm))"
proof -
  have t: "metricTemplate s = Inr (join_nl (thresholdLines tm))"
    using metricTemplate_threshold [OF assms(1,2)] by (simp add: thresholdLines_def)
  have p: "\<forall>l\<in>set (thresholdLines tm). singleLine l \<and> \<not> blank l"
    using assms(3)
    by (simp add: thresholdLines_def plainSource_def line_eval operator_text_single
        num_text_single)
  have "replaceBlankLines True (join_nl (thresholdLines tm)) = join_nl (thresholdLines tm)"
  proof (rule rb_lines_nonblank)
    show "thresholdLines tm \<noteq> []" by (simp add: thresholdLines_def)
    show "\<forall>l\<in>set (thresholdLines tm). \<forall>c\<in>set l. \<not> isLineTerminator c"
      using p by (simp add: singleLine_iff)
    show "\<forall>l\<in>set (butlast (thresholdLines tm)). \<not> blank l"
      using p by (auto dest: in_set_butlastD)
  qed
  then show ?thesis using t by (simp add: metricBlock_def err_simps)
qed

text \<open>
  \<^bold>\<open>C3\<close> (what the code does). A threshold query that is on one line and not blank is
  emitted verbatim, on the line behind \<open>query: >-\<close> and eight spaces, and nothing of the
  block is removed. A query with an empty line in it is not: the removal of empty lines
  meant for the absent good and bad entries takes the empty line of the query too, so the
  queries \<open>a\<newline>\<newline>b\<close> and \<open>a\<newline>b\<close> render to the same document, and the first cannot be
  recovered from it.
\<close>

theorem blank_line_of_query_is_lost:
  "(indicatorType s = threshold \<and> thresholdMetric s = Some tm \<and> plainSource (source tm)
      \<longrightarrow> metricBlock s = Inr (join_nl (thresholdLines tm)))
   \<and> generateYaml (queryState ''a\<newline>\<newline>b'') = generateYaml (queryState ''a\<newline>b'')
   \<and> generateYaml (queryState ''a\<newline>\<newline>b'') = Inr
        ''apiVersion: openslo/v1\<newline>kind: SLO\<newline>metadata:\<newline>  name: my-service-availability\<newline>  displayName: My Service Availability\<newline>spec:\<newline>  description: Availability SLO for the core API service\<newline>  service: core-api\<newline>  budgetingMethod: occurrences\<newline>  objectives:\<newline>    - displayName: My Service Availability\<newline>      target: 0.999\<newline>      timeWindow:\<newline>        - rolling: true\<newline>          count: 28\<newline>          unit: d\<newline>  indicator:\<newline>    thresholdMetric:\<newline>      metricSource:\<newline>        type: prometheus\<newline>        spec:\<newline>          query: >-\<newline>            a\<newline>    b\<newline>      operator: lte\<newline>      value: 0.5''"
proof -
  have 1: "indicatorType s = threshold \<and> thresholdMetric s = Some tm \<and> plainSource (source tm)
      \<longrightarrow> metricBlock s = Inr (join_nl (thresholdLines tm))"
    using metricBlock_threshold_plain by blast
  have 2: "generateYaml (queryState ''a\<newline>\<newline>b'') = generateYaml (queryState ''a\<newline>b'')"
    by code_simp
  have 3: "generateYaml (queryState ''a\<newline>\<newline>b'') = Inr
        ''apiVersion: openslo/v1\<newline>kind: SLO\<newline>metadata:\<newline>  name: my-service-availability\<newline>  displayName: My Service Availability\<newline>spec:\<newline>  description: Availability SLO for the core API service\<newline>  service: core-api\<newline>  budgetingMethod: occurrences\<newline>  objectives:\<newline>    - displayName: My Service Availability\<newline>      target: 0.999\<newline>      timeWindow:\<newline>        - rolling: true\<newline>          count: 28\<newline>          unit: d\<newline>  indicator:\<newline>    thresholdMetric:\<newline>      metricSource:\<newline>        type: prometheus\<newline>        spec:\<newline>          query: >-\<newline>            a\<newline>    b\<newline>      operator: lte\<newline>      value: 0.5''"
    by code_simp
  from 1 2 3 show ?thesis by (intro conjI)
qed

theorem blank_line_of_query_is_lost_witness:
  "indicatorType (queryState ''up'') = threshold
   \<and> thresholdMetric (queryState ''up'') = Some (queryMetric ''up'')
   \<and> plainSource (source (queryMetric ''up''))
   \<and> metricBlock (queryState ''up'') = Inr (join_nl (thresholdLines (queryMetric ''up'')))
   \<and> generateYaml (queryState ''a\<newline>\<newline>b'') = generateYaml (queryState ''a\<newline>b'')"
proof -
  have a: "indicatorType (queryState ''up'') = threshold"
    "thresholdMetric (queryState ''up'') = Some (queryMetric ''up'')"
    by (simp_all add: queryState_def DEFAULT_SLO_STATE_def)
  have p: "plainSource (source (queryMetric ''up''))"
    by (simp add: queryMetric_def plainSource_def line_eval)
  note t = blank_line_of_query_is_lost [of "queryState ''up''" "queryMetric ''up''"]
  from t a p have m: "metricBlock (queryState ''up'') = Inr (join_nl (thresholdLines (queryMetric ''up'')))"
    by blast
  from t have e: "generateYaml (queryState ''a\<newline>\<newline>b'') = generateYaml (queryState ''a\<newline>b'')"
    by blast
  from a p m e show ?thesis by (intro conjI)
qed







end
